theory Spec2Isabelle
  imports Complex_Main "HOL-Library.Sublist" "HOL-Library.Char_ord" "HOL-Library.List_Lexorder"
begin

section \<open>Values shared by the runners, the aggregator and the report generator\<close>

text \<open>
  Python floats are modelled as extended reals: a finite double is the real number it denotes
  (rounding, overflow and the sign of zero are not modelled), and the three non-finite doubles
  are values of their own. The operations follow IEEE 754 on these values.
\<close>

datatype fl = Fin real | PosInf | NegInf | NaN

fun fl_neg :: "fl \<Rightarrow> fl" where
  "fl_neg (Fin a) = Fin (- a)"
| "fl_neg PosInf = NegInf"
| "fl_neg NegInf = PosInf"
| "fl_neg NaN = NaN"

fun fl_abs :: "fl \<Rightarrow> fl" where
  "fl_abs (Fin a) = Fin \<bar>a\<bar>"
| "fl_abs PosInf = PosInf"
| "fl_abs NegInf = PosInf"
| "fl_abs NaN = NaN"

fun fl_add :: "fl \<Rightarrow> fl \<Rightarrow> fl" where
  "fl_add (Fin a) (Fin b) = Fin (a + b)"
| "fl_add NaN _ = NaN"
| "fl_add _ NaN = NaN"
| "fl_add PosInf NegInf = NaN"
| "fl_add NegInf PosInf = NaN"
| "fl_add PosInf _ = PosInf"
| "fl_add _ PosInf = PosInf"
| "fl_add NegInf _ = NegInf"
| "fl_add _ NegInf = NegInf"

definition fl_sub :: "fl \<Rightarrow> fl \<Rightarrow> fl" where
  "fl_sub a b = fl_add a (fl_neg b)"

fun fl_mul :: "fl \<Rightarrow> fl \<Rightarrow> fl" where
  "fl_mul (Fin a) (Fin b) = Fin (a * b)"
| "fl_mul NaN _ = NaN"
| "fl_mul _ NaN = NaN"
| "fl_mul PosInf (Fin b) = (if 0 < b then PosInf else if b < 0 then NegInf else NaN)"
| "fl_mul NegInf (Fin b) = (if 0 < b then NegInf else if b < 0 then PosInf else NaN)"
| "fl_mul (Fin a) PosInf = (if 0 < a then PosInf else if a < 0 then NegInf else NaN)"
| "fl_mul (Fin a) NegInf = (if 0 < a then NegInf else if a < 0 then PosInf else NaN)"
| "fl_mul PosInf PosInf = PosInf"
| "fl_mul PosInf NegInf = NegInf"
| "fl_mul NegInf PosInf = NegInf"
| "fl_mul NegInf NegInf = PosInf"

text \<open>
  Float division as numpy and pandas perform it: dividing by zero does not raise, it gives an
  infinity (or NaN for 0/0).
\<close>

fun fl_div :: "fl \<Rightarrow> fl \<Rightarrow> fl" where
  "fl_div (Fin a) (Fin b) =
     (if b \<noteq> 0 then Fin (a / b)
      else if 0 < a then PosInf else if a < 0 then NegInf else NaN)"
| "fl_div NaN _ = NaN"
| "fl_div _ NaN = NaN"
| "fl_div (Fin a) PosInf = Fin 0"
| "fl_div (Fin a) NegInf = Fin 0"
| "fl_div PosInf (Fin b) = (if 0 \<le> b then PosInf else NegInf)"
| "fl_div NegInf (Fin b) = (if 0 \<le> b then NegInf else PosInf)"
| "fl_div PosInf PosInf = NaN"
| "fl_div PosInf NegInf = NaN"
| "fl_div NegInf PosInf = NaN"
| "fl_div NegInf NegInf = NaN"

fun fl_sqrt :: "fl \<Rightarrow> fl" where
  "fl_sqrt (Fin a) = (if 0 \<le> a then Fin (sqrt a) else NaN)"
| "fl_sqrt PosInf = PosInf"
| "fl_sqrt NegInf = NaN"
| "fl_sqrt NaN = NaN"

text \<open>Comparisons: every comparison with NaN is false.\<close>

fun fl_less :: "fl \<Rightarrow> fl \<Rightarrow> bool" where
  "fl_less (Fin a) (Fin b) = (a < b)"
| "fl_less NaN _ = False"
| "fl_less _ NaN = False"
| "fl_less _ NegInf = False"
| "fl_less PosInf _ = False"
| "fl_less NegInf _ = True"
| "fl_less _ PosInf = True"

fun fl_le :: "fl \<Rightarrow> fl \<Rightarrow> bool" where
  "fl_le (Fin a) (Fin b) = (a \<le> b)"
| "fl_le NaN _ = False"
| "fl_le _ NaN = False"
| "fl_le NegInf _ = True"
| "fl_le _ PosInf = True"
| "fl_le _ NegInf = False"
| "fl_le PosInf _ = False"

text \<open>\<^verbatim>\<open>np.mean\<close> and \<^verbatim>\<open>np.std\<close> (with numpy's default \<^verbatim>\<open>ddof=0\<close>) on a float array.\<close>

definition np_sum :: "fl list \<Rightarrow> fl" where
  "np_sum xs = foldl fl_add (Fin 0) xs"

definition np_mean :: "fl list \<Rightarrow> fl" where
  "np_mean xs = fl_div (np_sum xs) (Fin (real (length xs)))"

definition np_std :: "fl list \<Rightarrow> fl" where
  "np_std xs =
     fl_sqrt (np_mean (map (\<lambda>x. let d = fl_abs (fl_sub x (np_mean xs)) in fl_mul d d) xs))"

text \<open>
  Documents are JSON values; a Python dict is the list of its items in insertion order, with
  distinct keys.
\<close>

datatype json =
    JNull
  | JBool bool
  | JInt int
  | JNum fl
  | JStr string
  | JArr "json list"
  | JObj "(string \<times> json) list"

datatype error =
    RequiredKeys "string set"
  | ValueError string
  | KeyError string
  | TypeError
  | AttributeError
  | ZeroDivisionError
  | IOError string
  | OverflowError
  | JSONDecodeError
  | ProviderError string
  | CommandFailed

text \<open>\<^verbatim>\<open>d[k]\<close>, \<^verbatim>\<open>d.get(k, default)\<close>, \<^verbatim>\<open>d.keys()\<close> and the truth value of a JSON value.\<close>

fun subscript :: "json \<Rightarrow> string \<Rightarrow> error + json" where
  "subscript (JObj kv) k = (case map_of kv k of None \<Rightarrow> Inl (KeyError k) | Some v \<Rightarrow> Inr v)"
| "subscript _ k = Inl TypeError"

fun dict_get :: "json \<Rightarrow> string \<Rightarrow> json \<Rightarrow> error + json" where
  "dict_get (JObj kv) k d = (case map_of kv k of None \<Rightarrow> Inr d | Some v \<Rightarrow> Inr v)"
| "dict_get _ k d = Inl AttributeError"

fun dict_keys :: "json \<Rightarrow> error + string set" where
  "dict_keys (JObj kv) = Inr (set (map fst kv))"
| "dict_keys _ = Inl AttributeError"

fun truthy :: "json \<Rightarrow> bool" where
  "truthy JNull = False"
| "truthy (JBool b) = b"
| "truthy (JInt i) = (i \<noteq> 0)"
| "truthy (JNum x) = (x \<noteq> Fin 0)"
| "truthy (JStr s) = (s \<noteq> [])"
| "truthy (JArr xs) = (xs \<noteq> [])"
| "truthy (JObj kv) = (kv \<noteq> [])"

text \<open>
  Sequencing of steps that may raise: the first exception ends the sequence. An external call
  that may raise reports its exception as \<open>Some\<close>.
\<close>

fun then_do :: "error + 'a \<Rightarrow> ('a \<Rightarrow> error + 'b) \<Rightarrow> error + 'b" where
  "then_do (Inl e) f = Inl e"
| "then_do (Inr x) f = f x"

fun unless_raised :: "error option \<Rightarrow> error + 'b \<Rightarrow> error + 'b" where
  "unless_raised (Some e) r = Inl e"
| "unless_raised None r = r"

section \<open>Timing engine of the Python runners\<close>

text \<open>
  The wall clock is an input: \<open>clock n\<close> is what the \<open>n\<close>-th call of
  \<^verbatim>\<open>time.perf_counter()\<close> returns. The meter counts the clock readings and the calls of
  the provider's FTLE computation made so far.
\<close>

record meter =
  reads :: nat
  calls :: nat

definition perf_counter :: "(nat \<Rightarrow> real) \<Rightarrow> meter \<Rightarrow> real \<times> meter" where
  "perf_counter clock m = (clock (reads m), m\<lparr>reads := Suc (reads m)\<rparr>)"

definition compute_ftle :: "meter \<Rightarrow> meter" where
  "compute_ftle m = m\<lparr>calls := Suc (calls m)\<rparr>"

text \<open>\<^verbatim>\<open>for k in range(iterates_per_run)\<close>: an empty range when the count is not positive.\<close>

definition inner_iterates :: "int \<Rightarrow> meter \<Rightarrow> meter" where
  "inner_iterates iterates_per_run m = (compute_ftle ^^ nat iterates_per_run) m"

definition timed_loop :: "(nat \<Rightarrow> real) \<Rightarrow> int \<Rightarrow> meter \<Rightarrow> real \<times> meter" where
  "timed_loop clock iterates_per_run m =
     (let (l_start, m1) = perf_counter clock m;
          m2 = inner_iterates iterates_per_run m1;
          (l_end, m3) = perf_counter clock m2
      in (l_end - l_start, m3))"

fun outer_runs :: "(nat \<Rightarrow> real) \<Rightarrow> int \<Rightarrow> nat \<Rightarrow> meter \<Rightarrow> real list \<times> meter" where
  "outer_runs clock iterates_per_run 0 m = ([], m)"
| "outer_runs clock iterates_per_run (Suc n) m =
     (let (loop_time, m1) = timed_loop clock iterates_per_run m;
          (rest, m2) = outer_runs clock iterates_per_run n m1
      in (loop_time # rest, m2))"

text \<open>
  The three branches on \<^verbatim>\<open>num_benchmark_runs\<close> that every Python runner function ends
  with; the result is the \<^verbatim>\<open>timing_data\<close> dict. In the single-run branch the division is
  Python's float by int, which raises on a zero count; in the multi-run branch it is numpy's.
\<close>

definition benchmark_loops ::
  "(nat \<Rightarrow> real) \<Rightarrow> int \<Rightarrow> int \<Rightarrow> real \<Rightarrow> meter \<Rightarrow> error + ((string \<times> json) list \<times> meter)" where
  "benchmark_loops clock iterates_per_run num_benchmark_runs warmup_time m =
     (if 1 < num_benchmark_runs then
        (let (times, m1) = outer_runs clock iterates_per_run (nat num_benchmark_runs) m;
             loop_times = map Fin times;
             per_iter_times = map (\<lambda>t. fl_div t (Fin (of_int iterates_per_run))) loop_times
         in Inr ([(''warmup_time'', JNum (Fin warmup_time)),
                  (''loop_times'', JArr (map JNum loop_times)),
                  (''per_iter_times'', JArr (map JNum per_iter_times)),
                  (''mean_loop_time'', JNum (np_mean loop_times)),
                  (''mean_per_iter_time'', JNum (np_mean per_iter_times)),
                  (''std_loop_time'', JNum (np_std loop_times)),
                  (''std_per_iter_time'', JNum (np_std per_iter_times))], m1))
      else if num_benchmark_runs < 1 then
        Inl (ValueError ''num_benchmark_runs must be at least 1'')
      else
        (let (loop_time, m1) = timed_loop clock iterates_per_run m
         in if iterates_per_run = 0 then Inl ZeroDivisionError
            else Inr ([(''warmup_time'', JNum (Fin warmup_time)),
                       (''mean_loop_time'', JNum (Fin loop_time)),
                       (''mean_per_iter_time'', JNum (Fin (loop_time / of_int iterates_per_run))),
                       (''std_loop_time'', JNum (Fin 0)),
                       (''std_per_iter_time'', JNum (Fin 0))], m1)))"

section \<open>The Python runner functions\<close>

text \<open>
  What a runner function cannot decide by itself is an input of the model: the clock, the
  outcome of loading a velocity array, the outcome of setting up the provider's flow for the
  given flow data, the mean absolute error of the warm-up field against a reference, and
  whether a path can be written. The results directory is a map from paths to the JSON
  documents stored there.
\<close>

record world =
  perf_clock :: "nat \<Rightarrow> real"
  np_load :: "json \<Rightarrow> error option"
  provider_setup :: "json \<Rightarrow> error option"
  reference_mae :: "json \<Rightarrow> error + fl"
  writable :: "string \<Rightarrow> bool"

type_synonym files = "string \<rightharpoonup> json"

text \<open>\<^verbatim>\<open>nx, ny = flow_data['grid_shape']\<close>: unpacking a JSON value into two names.\<close>

fun unpack2 :: "json \<Rightarrow> error + (json \<times> json)" where
  "unpack2 (JArr [a, b]) = Inr (a, b)"
| "unpack2 (JArr xs) = Inl (ValueError ''unpack'')"
| "unpack2 (JStr [a, b]) = Inr (JStr [a], JStr [b])"
| "unpack2 (JStr s) = Inl (ValueError ''unpack'')"
| "unpack2 (JObj [(k1, v1), (k2, v2)]) = Inr (JStr k1, JStr k2)"
| "unpack2 (JObj kv) = Inl (ValueError ''unpack'')"
| "unpack2 _ = Inl TypeError"

text \<open>\<^verbatim>\<open>str.lower()\<close> on the ASCII letters: an upper-case letter gets bit 5 set.\<close>

fun lower_char :: "char \<Rightarrow> char" where
  "lower_char (Char b0 b1 b2 b3 b4 b5 b6 b7) =
     (let n = (of_char (Char b0 b1 b2 b3 b4 b5 b6 b7) :: nat)
      in if 65 \<le> n \<and> n \<le> 90 then Char b0 b1 b2 b3 b4 True b6 b7
         else Char b0 b1 b2 b3 b4 b5 b6 b7)"

definition lower :: "string \<Rightarrow> string" where
  "lower s = map lower_char s"

text \<open>
  The warm-up: one execution between two clock readings, kept out of the statistics. With a
  non-empty \<^verbatim>\<open>error_data\<close> it runs at the reference start time and adds the
  \<^verbatim>\<open>error\<close> entry to the results.
\<close>

definition timed_warmup :: "world \<Rightarrow> meter \<Rightarrow> real \<times> meter" where
  "timed_warmup w m =
     (let (wu_start, m1) = perf_counter (perf_clock w) m;
          m2 = compute_ftle m1;
          (wu_end, m3) = perf_counter (perf_clock w) m2
      in (wu_end - wu_start, m3))"

definition warmup ::
  "world \<Rightarrow> json \<Rightarrow> meter \<Rightarrow> error + (real \<times> (string \<times> json) list \<times> meter)" where
  "warmup w error_data m =
     (if truthy error_data then
        then_do (subscript error_data ''true_data'') (\<lambda>ftle_true.
        then_do (subscript error_data ''t0'') (\<lambda>t0_true.
          (let (warmup_time, m') = timed_warmup w m
           in then_do (reference_mae w ftle_true) (\<lambda>mae.
              then_do (subscript error_data ''error_params'') (\<lambda>ep.
                Inr (warmup_time,
                     [(''error'', JObj [(''mae'', JNum mae), (''error_params'', ep)])], m'))))))
      else
        (let (warmup_time, m') = timed_warmup w m in Inr (warmup_time, [], m')))"

text \<open>Saving the results: an \<^verbatim>\<open>IOError\<close> is printed and raised again.\<close>

definition write_json :: "world \<Rightarrow> string \<Rightarrow> json \<Rightarrow> files \<Rightarrow> error + files" where
  "write_json w path doc fs =
     (if writable w path then Inr (fs(path \<mapsto> doc)) else Inl (IOError path))"

text \<open>
  Warm-up, benchmark loops and saving, which the three runner functions share line by line
  once their flow is set up.
\<close>

definition results_document :: "int \<Rightarrow> int \<Rightarrow> (string \<times> json) list \<Rightarrow> (string \<times> json) list \<Rightarrow> json \<Rightarrow> json" where
  "results_document iterates_per_run num_benchmark_runs error_entry timing_data metadata =
     JObj ([(''parameters'', JObj [(''iterates_per_run'', JInt iterates_per_run),
                                   (''num_benchmark_runs'', JInt num_benchmark_runs)])]
           @ error_entry
           @ [(''timings'', JObj timing_data), (''metadata'', metadata)])"

definition warmup_benchmark_write ::
  "world \<Rightarrow> string \<Rightarrow> int \<Rightarrow> int \<Rightarrow> json \<Rightarrow> json \<Rightarrow> files \<Rightarrow> error + (files \<times> meter)" where
  "warmup_benchmark_write w output_json_path iterates_per_run num_benchmark_runs
       error_data metadata fs =
     then_do (warmup w error_data \<lparr>reads = 0, calls = 0\<rparr>) (\<lambda>(warmup_time, error_entry, m).
     then_do (benchmark_loops (perf_clock w) iterates_per_run num_benchmark_runs warmup_time m)
       (\<lambda>(timing_data, m').
     then_do (write_json w output_json_path
                (results_document iterates_per_run num_benchmark_runs error_entry
                   timing_data metadata) fs)
       (\<lambda>fs'. Inr (fs', m'))))"

definition numbacs_predefined_req_keys :: "string set" where
  "numbacs_predefined_req_keys = {''flow_str'', ''grid_shape'', ''t0'', ''T'', ''dt0''}"

definition run_numbacs_predefined_ftle ::
  "world \<Rightarrow> json \<Rightarrow> string \<Rightarrow> int \<Rightarrow> int \<Rightarrow> json \<Rightarrow> json \<Rightarrow> files \<Rightarrow> error + (files \<times> meter)" where
  "run_numbacs_predefined_ftle w flow_data output_json_path iterates_per_run num_benchmark_runs
       error_data metadata fs =
     then_do (dict_keys flow_data) (\<lambda>keys.
       if \<not> numbacs_predefined_req_keys \<subseteq> keys
       then Inl (RequiredKeys numbacs_predefined_req_keys)
       else
         then_do (subscript flow_data ''grid_shape'') (\<lambda>shape.
         then_do (unpack2 shape) (\<lambda>(nx, ny).
         then_do (subscript metadata ''package_name'') (\<lambda>package.
         then_do (subscript metadata ''case_description'') (\<lambda>case_desc.
         unless_raised (provider_setup w flow_data)
           (warmup_benchmark_write w output_json_path iterates_per_run num_benchmark_runs
              error_data metadata fs))))))"

definition numbacs_data_req_keys :: "string set" where
  "numbacs_data_req_keys = {''flow_str'', ''vel_data_paths'', ''domain'', ''t0'', ''T'', ''dt0''}"

definition run_numbacs_data_ftle ::
  "world \<Rightarrow> json \<Rightarrow> string \<Rightarrow> int \<Rightarrow> int \<Rightarrow> json \<Rightarrow> json \<Rightarrow> files \<Rightarrow> error + (files \<times> meter)" where
  "run_numbacs_data_ftle w flow_data output_json_path iterates_per_run num_benchmark_runs
       error_data metadata fs =
     then_do (dict_keys flow_data) (\<lambda>keys.
       if \<not> numbacs_data_req_keys \<subseteq> keys
       then Inl (RequiredKeys numbacs_data_req_keys)
       else
         then_do (subscript flow_data ''vel_data_paths'') (\<lambda>paths.
         then_do (subscript paths ''u'') (\<lambda>u_path.
         unless_raised (np_load w u_path) (
         then_do (subscript paths ''v'') (\<lambda>v_path.
         unless_raised (np_load w v_path) (
         then_do (subscript metadata ''package_name'') (\<lambda>package.
         then_do (subscript metadata ''case_description'') (\<lambda>case_desc.
         unless_raised (provider_setup w flow_data)
           (warmup_benchmark_write w output_json_path iterates_per_run num_benchmark_runs
              error_data metadata fs)))))))))"

definition dynlab_req_keys :: "string set" where
  "dynlab_req_keys = {''flow_str'', ''domain'', ''grid_shape'', ''t0'', ''T'', ''dt0''}"

text \<open>\<^verbatim>\<open>flow_str.lower()\<close> must name one of the two flows benchmarked with Dynlab.\<close>

fun dynlab_flow :: "json \<Rightarrow> error + string" where
  "dynlab_flow (JStr s) =
     (if lower s = ''double_gyre'' then Inr ''double_gyre''
      else if lower s = ''bickley_jet'' then Inr ''bickley_jet''
      else Inl (ValueError ''Currently, only supported flows for benchmarking are double_gyre and bickley_jet''))"
| "dynlab_flow _ = Inl AttributeError"

text \<open>
  The Dynlab function takes \<^verbatim>\<open>num_threads\<close> as well; it only reaches the provider and
  is part of its set-up here.
\<close>

definition run_dynlab_ftle ::
  "world \<Rightarrow> json \<Rightarrow> string \<Rightarrow> int \<Rightarrow> int \<Rightarrow> json \<Rightarrow> json \<Rightarrow> files \<Rightarrow> error + (files \<times> meter)" where
  "run_dynlab_ftle w flow_data output_json_path iterates_per_run num_benchmark_runs
       error_data metadata fs =
     then_do (dict_keys flow_data) (\<lambda>keys.
       if \<not> dynlab_req_keys \<subseteq> keys
       then Inl (RequiredKeys dynlab_req_keys)
       else
         then_do (subscript flow_data ''flow_str'') (\<lambda>flow_str.
         then_do (dynlab_flow flow_str) (\<lambda>f.
         then_do (subscript flow_data ''grid_shape'') (\<lambda>shape.
         then_do (unpack2 shape) (\<lambda>(nx, ny).
         then_do (subscript metadata ''package_name'') (\<lambda>package.
         then_do (subscript metadata ''case_description'') (\<lambda>case_desc.
         unless_raised (provider_setup w flow_data)
           (warmup_benchmark_write w output_json_path iterates_per_run num_benchmark_runs
              error_data metadata fs))))))))"

section \<open>Command-line entry points of the Python runners\<close>

text \<open>
  \<^verbatim>\<open>json.loads\<close> and the text Python prints for an exception (\<^verbatim>\<open>type(e).__name__: e\<close>)
  are library behaviour and inputs of the model.

  The runner functions are typed as their docstrings say: the output path is a string and the
  two counts are integers. Python does not check this when \<^verbatim>\<open>main\<close> calls them: a value
  of another JSON type is passed on and fails, or does not, where it is first used (a bool
  counts as 0 or 1; a float fails in \<^verbatim>\<open>range\<close> or \<^verbatim>\<open>np.zeros\<close>, a run count of 1.0
  passes). What the call does with such a configuration is not described by the typed
  functions; it is an input as well, \<open>untyped_call\<close>, given the configuration and the files.
\<close>

record cli =
  json_loads :: "string \<Rightarrow> json option"
  exception_text :: "error \<Rightarrow> string"
  untyped_call :: "json \<Rightarrow> files \<Rightarrow> error + files"

fun typed_arguments :: "json \<Rightarrow> json \<Rightarrow> json \<Rightarrow> (string \<times> int \<times> int) option" where
  "typed_arguments (JStr path) (JInt i) (JInt n) = Some (path, i, n)"
| "typed_arguments output_json_path ipr nbr = None"

text \<open>Substring test (\<^verbatim>\<open>pat in text\<close>) and \<^verbatim>\<open>key in value\<close> on a JSON value.\<close>

fun contains :: "'a list \<Rightarrow> 'a list \<Rightarrow> bool" where
  "contains pat [] = (pat = [])"
| "contains pat (c # cs) = (prefix pat (c # cs) \<or> contains pat cs)"

fun py_in :: "string \<Rightarrow> json \<Rightarrow> error + bool" where
  "py_in k (JObj kv) = Inr (k \<in> set (map fst kv))"
| "py_in k (JArr xs) = Inr (JStr k \<in> set xs)"
| "py_in k (JStr s) = Inr (contains k s)"
| "py_in k _ = Inl TypeError"

definition error_document :: "cli \<Rightarrow> string \<Rightarrow> error \<Rightarrow> string \<Rightarrow> json" where
  "error_document c package_label e run_config_json =
     JObj [(''package'', JStr package_label),
           (''error'', JStr (exception_text c e)),
           (''run_config_json_str_received'', JStr run_config_json)]"

text \<open>
  The exception handler of a runner's \<^verbatim>\<open>main\<close>: the output path is recovered from the
  configuration when it parses, else the default name is used, and every failure while writing
  the error document is swallowed.
\<close>

definition output_path_for_error :: "cli \<Rightarrow> string \<Rightarrow> string \<Rightarrow> json" where
  "output_path_for_error c default_path run_config_json =
     (case json_loads c run_config_json of
        None \<Rightarrow> JStr default_path
      | Some parsed \<Rightarrow>
          (case dict_get parsed ''output_json_path'' (JStr default_path) of
             Inl e \<Rightarrow> JStr default_path
           | Inr p \<Rightarrow> p))"

definition write_error_document ::
  "world \<Rightarrow> cli \<Rightarrow> string \<Rightarrow> string \<Rightarrow> error \<Rightarrow> string \<Rightarrow> files \<Rightarrow> files" where
  "write_error_document w c package_label default_path e run_config_json fs =
     (let path = output_path_for_error c default_path run_config_json
      in if truthy path then
           (case path of
              JStr p \<Rightarrow>
                if writable w p then fs(p \<mapsto> error_document c package_label e run_config_json)
                else fs
            | _ \<Rightarrow> fs)
         else fs)"

text \<open>
  The \<^verbatim>\<open>try\<close> body of the NumbaCS runner. The result is the exception raised, if any,
  and the files as they are at that point: the final message reads
  \<^verbatim>\<open>run_config['metadata']['case_id']\<close> after the results have been saved.
\<close>

definition numbacs_dispatch ::
  "world \<Rightarrow> cli \<Rightarrow> json \<Rightarrow> files \<Rightarrow> error + files" where
  "numbacs_dispatch w c run_config fs =
     then_do (subscript run_config ''output_json_path'') (\<lambda>output_json_path.
     then_do (subscript run_config ''flow_data'') (\<lambda>flow_data_dict.
     then_do (subscript run_config ''iterates_per_run'') (\<lambda>ipr.
     then_do (subscript run_config ''num_benchmark_runs'') (\<lambda>nbr.
     then_do (dict_get run_config ''error_data'' (JObj [])) (\<lambda>error_data_dict.
     then_do (dict_get run_config ''metadata'' (JObj [])) (\<lambda>metadata_dict.
     then_do (subscript run_config ''metadata'') (\<lambda>md.
     then_do (subscript md ''case_flow_type'') (\<lambda>flow_type.
     then_do (if flow_type = JStr ''data''
              then then_do (py_in ''vel_data_paths'' flow_data_dict) (\<lambda>present.
                     if present then Inr ()
                     else Inl (ValueError ''NumbaCS data flow type expects vel_data_paths in flow_data.''))
              else Inr ()) (\<lambda>checked.
       if flow_type = JStr ''predefined'' then
         (case typed_arguments output_json_path ipr nbr of
            None \<Rightarrow> untyped_call c run_config fs
          | Some (path, i, n) \<Rightarrow>
              then_do (run_numbacs_predefined_ftle w flow_data_dict path i n
                         error_data_dict metadata_dict fs) (\<lambda>(fs', m). Inr fs'))
       else if flow_type = JStr ''data'' then
         (case typed_arguments output_json_path ipr nbr of
            None \<Rightarrow> untyped_call c run_config fs
          | Some (path, i, n) \<Rightarrow>
              then_do (run_numbacs_data_ftle w flow_data_dict path i n
                         error_data_dict metadata_dict fs) (\<lambda>(fs', m). Inr fs'))
       else Inl (ValueError ''Unsupported flow_type for NumbaCS runner.''))))))))))"

definition completed_message :: "json \<Rightarrow> files \<Rightarrow> error option \<times> files" where
  "completed_message run_config fs' =
     (case then_do (subscript run_config ''metadata'') (\<lambda>md. subscript md ''case_id'') of
        Inl e \<Rightarrow> (Some e, fs')
      | Inr cid \<Rightarrow> (None, fs'))"

definition numbacs_try :: "world \<Rightarrow> cli \<Rightarrow> string \<Rightarrow> files \<Rightarrow> error option \<times> files" where
  "numbacs_try w c run_config_json fs =
     (case json_loads c run_config_json of
        None \<Rightarrow> (Some JSONDecodeError, fs)
      | Some run_config \<Rightarrow>
          (case numbacs_dispatch w c run_config fs of
             Inl e \<Rightarrow> (Some e, fs)
           | Inr fs' \<Rightarrow> completed_message run_config fs'))"

text \<open>The runner process: exit status and the files it leaves.\<close>

definition numbacs_main :: "world \<Rightarrow> cli \<Rightarrow> string \<Rightarrow> files \<Rightarrow> int \<times> files" where
  "numbacs_main w c run_config_json fs =
     (case numbacs_try w c run_config_json fs of
        (None, fs') \<Rightarrow> (0, fs')
      | (Some e, fs') \<Rightarrow>
          (1, write_error_document w c ''NumbaCS'' ''numbacs_error.json'' e run_config_json fs'))"

definition dynlab_dispatch ::
  "world \<Rightarrow> cli \<Rightarrow> json \<Rightarrow> files \<Rightarrow> error + files" where
  "dynlab_dispatch w c run_config fs =
     then_do (subscript run_config ''output_json_path'') (\<lambda>output_json_path.
     then_do (subscript run_config ''flow_data'') (\<lambda>flow_data_dict.
     then_do (subscript run_config ''iterates_per_run'') (\<lambda>ipr.
     then_do (subscript run_config ''num_benchmark_runs'') (\<lambda>nbr.
     then_do (dict_get run_config ''error_data'' (JObj [])) (\<lambda>error_data_dict.
     then_do (dict_get run_config ''metadata'' (JObj [])) (\<lambda>metadata_dict.
     then_do (dict_get run_config ''pkg_specific_params'' (JObj [])) (\<lambda>all_specific.
     then_do (dict_get all_specific ''dynlab'' (JObj [])) (\<lambda>pkg_specific_params.
     then_do (dict_get pkg_specific_params ''num_threads'' (JInt 8)) (\<lambda>num_threads.
     then_do (subscript run_config ''metadata'') (\<lambda>md.
     then_do (subscript md ''case_flow_type'') (\<lambda>flow_type.
       if flow_type \<noteq> JStr ''predefined''
       then Inl (ValueError ''Dynlab runner received unsupported flow_type'')
       else
         (case typed_arguments output_json_path ipr nbr of
            None \<Rightarrow> untyped_call c run_config fs
          | Some (path, i, n) \<Rightarrow>
              then_do (run_dynlab_ftle w flow_data_dict path i n
                         error_data_dict metadata_dict fs) (\<lambda>(fs', m). Inr fs')))))))))))))"

definition dynlab_try :: "world \<Rightarrow> cli \<Rightarrow> string \<Rightarrow> files \<Rightarrow> error option \<times> files" where
  "dynlab_try w c run_config_json fs =
     (case json_loads c run_config_json of
        None \<Rightarrow> (Some JSONDecodeError, fs)
      | Some run_config \<Rightarrow>
          (case dynlab_dispatch w c run_config fs of
             Inl e \<Rightarrow> (Some e, fs)
           | Inr fs' \<Rightarrow> completed_message run_config fs'))"

definition dynlab_main :: "world \<Rightarrow> cli \<Rightarrow> string \<Rightarrow> files \<Rightarrow> int \<times> files" where
  "dynlab_main w c run_config_json fs =
     (case dynlab_try w c run_config_json fs of
        (None, fs') \<Rightarrow> (0, fs')
      | (Some e, fs') \<Rightarrow>
          (1, write_error_document w c ''Dynlab'' ''dynlab_error.json'' e run_config_json fs'))"

section \<open>The external-interpreter runner\<close>

text \<open>POSIX \<^verbatim>\<open>os.path\<close> helpers used to build paths and the MATLAB command.\<close>

definition path_join :: "string \<Rightarrow> string \<Rightarrow> string" where
  "path_join a b =
     (if prefix ''/'' b then b
      else if a = [] \<or> suffix ''/'' a then a @ b
      else a @ ''/'' @ b)"

definition basename :: "string \<Rightarrow> string" where
  "basename p = rev (takeWhile (\<lambda>c. c \<noteq> CHR ''/'') (rev p))"

definition dirname :: "string \<Rightarrow> string" where
  "dirname p =
     (let head = rev (dropWhile (\<lambda>c. c \<noteq> CHR ''/'') (rev p))
      in if head \<noteq> [] \<and> filter (\<lambda>c. c \<noteq> CHR ''/'') head \<noteq> []
         then rev (dropWhile (\<lambda>c. c = CHR ''/'') (rev head))
         else head)"

definition splitext_root :: "string \<Rightarrow> string" where
  "splitext_root name =
     (let root = rev (drop 1 (dropWhile (\<lambda>c. c \<noteq> CHR ''.'') (rev name)))
      in if filter (\<lambda>c. c \<noteq> CHR ''.'') root \<noteq> [] then root else name)"

text \<open>
  The MATLAB process is an input of the model: given the command, the timeout and the files,
  it exits with a return code, cannot be started, runs into the timeout, or fails in another
  way; it may change the files (it writes its own result document).
\<close>

datatype proc_result = Exited int | ExecutableNotFound | TimeoutExpired | OtherFailure

record matlab_env =
  abspath :: "string \<Rightarrow> string"
  script_isfile :: "string \<Rightarrow> bool"
  subprocess_run :: "string list \<Rightarrow> fl \<Rightarrow> files \<Rightarrow> proc_result \<times> files"

text \<open>The outcome of \<^verbatim>\<open>run_matlab_benchmark\<close>, with the call of
  \<^verbatim>\<open>subprocess.run\<close> it made, if it made one: the command and the timeout.\<close>

record matlab_run =
  success :: bool
  launched :: "(string list \<times> fl) option"
  files_after :: files

definition matlab_command :: "matlab_env \<Rightarrow> string \<Rightarrow> string \<Rightarrow> string" where
  "matlab_command env matlab_script_path run_config_json_file_path =
     (let script_dir_abs = abspath env (dirname matlab_script_path);
          script_name_no_ext = splitext_root (basename matlab_script_path);
          run_config_json_file_path_abs = abspath env run_config_json_file_path
      in ''cd('' @ [CHR 0x27] @ script_dir_abs @ [CHR 0x27] @ ''); try; ''
         @ script_name_no_ext @ ''('' @ [CHR 0x27] @ run_config_json_file_path_abs
         @ [CHR 0x27] @ ''); catch e; fprintf(2, '' @ [CHR 0x27]
         @ ''MATLAB Error in %s: %s'' @ [CHR 0x5C, CHR ''n'', CHR 0x27] @ '', '' @ [CHR 0x27]
         @ script_name_no_ext @ [CHR 0x27] @ '', getReport(e, '' @ [CHR 0x27] @ ''extended''
         @ [CHR 0x27] @ '', '' @ [CHR 0x27] @ ''hyperlinks'' @ [CHR 0x27] @ '', ''
         @ [CHR 0x27] @ ''off'' @ [CHR 0x27] @ '')); exit(1); end; exit(0);'')"

text \<open>A JSON number as a Python number; arithmetic on any other JSON value with the
  other operands of the timeout formula raises \<^verbatim>\<open>TypeError\<close>.\<close>

fun json_number :: "json \<Rightarrow> fl option" where
  "json_number (JInt i) = Some (Fin (of_int i))"
| "json_number (JNum x) = Some x"
| "json_number (JBool b) = Some (Fin (if b then 1 else 0))"
| "json_number _ = None"

definition timeout_seconds :: "fl \<Rightarrow> fl \<Rightarrow> fl \<Rightarrow> fl" where
  "timeout_seconds expected_iter_time iterates num_bench_runs =
     fl_add (fl_mul (fl_mul expected_iter_time iterates) num_bench_runs) (Fin 300)"

text \<open>
  Every exception inside the \<^verbatim>\<open>try\<close> of \<^verbatim>\<open>run_matlab_benchmark\<close> is caught and
  turned into the return value \<^verbatim>\<open>False\<close>; only return code 0 gives \<^verbatim>\<open>True\<close>.
\<close>

definition run_matlab_benchmark ::
  "matlab_env \<Rightarrow> string \<Rightarrow> string \<Rightarrow> string \<Rightarrow> fl \<Rightarrow> files \<Rightarrow> matlab_run" where
  "run_matlab_benchmark env matlab_script_path run_config_json_file_path matlab_executable
       expected_iter_time fs =
     (let cmd = [matlab_executable, ''-nodisplay'', ''-nosplash'', ''-batch'',
                 matlab_command env matlab_script_path run_config_json_file_path];
          failed = \<lparr>success = False, launched = None, files_after = fs\<rparr>
      in case fs run_config_json_file_path of
           None \<Rightarrow> failed
         | Some cfg_dict \<Rightarrow>
           (case subscript cfg_dict ''iterates_per_run'' of
              Inl e \<Rightarrow> failed
            | Inr iterates \<Rightarrow>
              (case subscript cfg_dict ''num_benchmark_runs'' of
                 Inl e \<Rightarrow> failed
               | Inr num_bench_runs \<Rightarrow>
                 (case (json_number iterates, json_number num_bench_runs) of
                    (Some i, Some n) \<Rightarrow>
                      (let t = timeout_seconds expected_iter_time i n;
                           (process, fs') = subprocess_run env cmd t fs
                       in \<lparr>success = (process = Exited 0), launched = Some (cmd, t),
                           files_after = fs'\<rparr>)
                  | _ \<Rightarrow> failed))))"

text \<open>
  The command line: \<^verbatim>\<open>--expected_iter_time\<close> is declared with default 200 and no type,
  so a supplied value arrives as a string. \<^verbatim>\<open>main\<close> calls
  \<^verbatim>\<open>run_matlab_benchmark\<close> with three arguments, which leaves the fourth parameter at
  its default of 200.
\<close>

record matlab_args =
  matlab_script :: string
  run_config_json_path :: string
  matlab_executable :: string
  expected_iter_time :: json

definition default_expected_iter_time :: fl where
  "default_expected_iter_time = Fin 200"

definition matlab_main :: "matlab_env \<Rightarrow> matlab_args \<Rightarrow> files \<Rightarrow> int \<times> matlab_run" where
  "matlab_main env args fs =
     (let not_run = \<lparr>success = False, launched = None, files_after = fs\<rparr>
      in if \<not> script_isfile env (matlab_script args) then (1, not_run)
         else if fs (run_config_json_path args) = None then (1, not_run)
         else
           (let r = run_matlab_benchmark env (matlab_script args) (run_config_json_path args)
                      (matlab_executable args) default_expected_iter_time fs
            in (if success r then 0 else 1, r)))"

section \<open>The dispatcher\<close>

record case_config =
  description :: string
  flow_type :: string
  flow_params :: "(string \<times> json) list"

text \<open>The case table, as JSON serialises it; the data directory is the absolute path of
  \<^verbatim>\<open>./data\<close>, which depends on where the dispatcher is started.\<close>

definition dg_ftle_flow_data :: json where
  "dg_ftle_flow_data =
     JObj [(''flow_str'', JStr ''double_gyre''),
           (''grid_shape'', JArr [JInt 201, JInt 101]),
           (''domain'', JArr [JArr [JNum (Fin 0), JNum (Fin 2)],
                              JArr [JNum (Fin 0), JNum (Fin 1)]]),
           (''t0'', JNum (Fin 0)), (''T'', JNum (Fin 16)), (''dt0'', JNum (Fin (1/2)))]"

definition qge_ftle_flow_data :: "string \<Rightarrow> json" where
  "qge_ftle_flow_data base_data_dir =
     JObj [(''flow_str'', JStr ''qge''),
           (''vel_data_paths'',
            JObj [(''u'', JStr (path_join base_data_dir ''qge_u.npy'')),
                  (''v'', JStr (path_join base_data_dir ''qge_v.npy''))]),
           (''domain'', JArr [JArr [JNum (Fin 0), JNum (Fin 1)],
                              JArr [JNum (Fin 0), JNum (Fin 1)],
                              JArr [JNum (Fin 0), JNum (Fin 2)]]),
           (''t0'', JNum (Fin 0)), (''T'', JNum (Fin (1/10))), (''dt0'', JNum (Fin (1/100)))]"

definition dg_ftle :: case_config where
  "dg_ftle =
     \<lparr>description = ''Double Gyre FTLE'', flow_type = ''predefined'',
      flow_params =
        [(''flow_data'', dg_ftle_flow_data),
         (''iterates_per_run'', JInt 50),
         (''num_benchmark_runs'', JInt 3),
         (''error_data'', JObj []),
         (''pkg_specific_params'', JObj [(''dynlab'', JObj [(''num_threads'', JInt 8)])])]\<rparr>"

definition qge_ftle :: "string \<Rightarrow> case_config" where
  "qge_ftle base_data_dir =
     \<lparr>description = ''QGE FTLE'', flow_type = ''data'',
      flow_params =
        [(''flow_data'', qge_ftle_flow_data base_data_dir),
         (''iterates_per_run'', JInt 30),
         (''num_benchmark_runs'', JInt 3),
         (''error_data'', JObj []),
         (''pkg_specific_params'',
          JObj [(''lcstool'', JObj [(''dimorder'', JArr [JInt 1, JInt 3, JInt 2])])])]\<rparr>"

definition BENCHMARK_CASES :: "string \<Rightarrow> (string \<times> case_config) list" where
  "BENCHMARK_CASES base_data_dir =
     [(''dg_ftle'', dg_ftle), (''qge_ftle'', qge_ftle base_data_dir)]"

record package_config =
  runner_script :: string
  supported_cases :: "string list"
  matlab_scripts_map :: "(string \<times> string) list option"
  matlab_scripts_dir :: "string option"

definition numbacs_config :: package_config where
  "numbacs_config =
     \<lparr>runner_script = ''runners/numbacs_runner.py'',
      supported_cases = [''dg_ftle'', ''qge_ftle''],
      matlab_scripts_map = None, matlab_scripts_dir = None\<rparr>"

definition dynlab_config :: package_config where
  "dynlab_config =
     \<lparr>runner_script = ''runners/dynlab_runner.py'',
      supported_cases = [''dg_ftle''],
      matlab_scripts_map = None, matlab_scripts_dir = None\<rparr>"

definition lcstool_config :: package_config where
  "lcstool_config =
     \<lparr>runner_script = ''runners/matlab_runner.py'',
      supported_cases = [''dg_ftle'', ''qge_ftle''],
      matlab_scripts_map = Some [(''predefined'', ''lcstool_dg_benchmark.m''),
                                 (''data'', ''lcstool_data_benchmark.m'')],
      matlab_scripts_dir = Some (path_join ''runners'' ''matlab_scripts'')\<rparr>"

definition PACKAGES_CONFIG :: "(string \<times> package_config) list" where
  "PACKAGES_CONFIG =
     [(''NumbaCS'', numbacs_config), (''Dynlab'', dynlab_config), (''LCStool'', lcstool_config)]"

text \<open>The cells of the matrix: every package with every case it supports, in table order.\<close>

definition benchmark_matrix ::
  "(string \<times> package_config) list \<Rightarrow> (string \<times> case_config) list
     \<Rightarrow> (string \<times> string \<times> package_config \<times> string \<times> case_config) list" where
  "benchmark_matrix packages cases =
     concat (map (\<lambda>(pkg_name, pkg_config).
       map (\<lambda>(cid, cc). (''bench-'' @ lower pkg_name @ ''-'' @ cid, pkg_name, pkg_config, cid, cc))
         (filter (\<lambda>(cid, cc). cid \<in> set (supported_cases pkg_config)) cases)) packages)"

text \<open>\<^verbatim>\<open>d[k] = v\<close> on a dict.\<close>

fun dict_set :: "(string \<times> json) list \<Rightarrow> string \<Rightarrow> json \<Rightarrow> (string \<times> json) list" where
  "dict_set [] k v = [(k, v)]"
| "dict_set ((k', v') # kv) k v = (if k' = k then (k, v) # kv else (k', v') # dict_set kv k v)"

definition output_filename :: "string \<Rightarrow> string \<Rightarrow> string" where
  "output_filename pkg_name cid = pkg_name @ ''_'' @ cid @ ''_results.json''"

definition session_metadata :: "string \<Rightarrow> string \<Rightarrow> case_config \<Rightarrow> json" where
  "session_metadata pkg_name_type cid cc =
     JObj [(''package_name'', JStr pkg_name_type),
           (''case_id'', JStr cid),
           (''case_description'', JStr (description cc)),
           (''case_flow_type'', JStr (flow_type cc))]"

definition final_run_config :: "string \<Rightarrow> string \<Rightarrow> string \<Rightarrow> case_config \<Rightarrow> json" where
  "final_run_config results_directory pkg_name_type cid cc =
     JObj (dict_set
             (dict_set (flow_params cc) ''output_json_path''
                (JStr (path_join results_directory (output_filename (lower pkg_name_type) cid))))
             ''metadata'' (session_metadata pkg_name_type cid cc))"

text \<open>
  What the session does not decide is an input: provisioning of the environment, the results
  directory, the \<^verbatim>\<open>LCSTOOL_PATH\<close> variable, the name \<^verbatim>\<open>NamedTemporaryFile\<close> picks for
  a prefix, JSON serialisation, and \<^verbatim>\<open>session.run\<close>, which reports whether the command
  exited with status 0 and may change the files. So is what goes wrong with the temporary file:
  \<^verbatim>\<open>NamedTemporaryFile\<close> may raise before a file exists; \<^verbatim>\<open>json.dump\<close> or the
  closing of the file may raise once it exists (a full disk, for one); and \<^verbatim>\<open>os.remove\<close>
  may raise.
\<close>

datatype temp_fault = CreationFails error | WriteFails error

record nox_env =
  provision :: "error option"
  results_dir :: string
  lcstool_path :: "string option"
  temp_name :: "string \<Rightarrow> string"
  temp_fault :: "temp_fault option"
  remove_fault :: "error option"
  json_dumps :: "json \<Rightarrow> string"
  session_run :: "string list \<Rightarrow> files \<Rightarrow> bool \<times> files"

datatype cell_outcome = Completed | Skipped | Raised error

text \<open>
  The external-interpreter branch of a session, from the check of the environment variable to
  the \<^verbatim>\<open>finally\<close> clause. The temporary file is created with \<^verbatim>\<open>delete=False\<close> and
  written inside a \<^verbatim>\<open>with\<close> block that stands before the \<^verbatim>\<open>try\<close> statement: an
  exception raised while the file is written leaves the block, closes the file and goes on out
  of the session, and the \<^verbatim>\<open>finally\<close> clause, which belongs to the \<^verbatim>\<open>try\<close> statement
  behind it, is not run. The file is then on disk with whatever was written; no one reads it,
  and it is recorded here under its name with the configuration as content. In the
  \<^verbatim>\<open>finally\<close> clause an exception of \<^verbatim>\<open>os.remove\<close> replaces the outcome of
  \<^verbatim>\<open>session.run\<close>.
\<close>

definition external_interpreter_cell ::
  "nox_env \<Rightarrow> string \<Rightarrow> package_config \<Rightarrow> string \<Rightarrow> case_config \<Rightarrow> json \<Rightarrow> files
     \<Rightarrow> cell_outcome \<times> files" where
  "external_interpreter_cell env pkg_name pkg_config cid cc final fs =
     (if lcstool_path env = None \<or> lcstool_path env = Some [] then (Skipped, fs)
      else
        (case then_do (subscript final ''flow_data'') (\<lambda>fd. subscript fd ''flow_str'') of
           Inl e \<Rightarrow> (Raised e, fs)
         | Inr flow_name \<Rightarrow>
           (case matlab_scripts_map pkg_config of
              None \<Rightarrow> (Raised (KeyError ''matlab_scripts_map''), fs)
            | Some scripts \<Rightarrow>
              (case map_of scripts (flow_type cc) of
                 None \<Rightarrow> (Skipped, fs)
               | Some matlab_script_file \<Rightarrow>
                 if matlab_script_file = [] then (Skipped, fs)
                 else
                   (case matlab_scripts_dir pkg_config of
                      None \<Rightarrow> (Raised (KeyError ''matlab_scripts_dir''), fs)
                    | Some scripts_dir \<Rightarrow>
                      (let matlab_script_full_path = path_join scripts_dir matlab_script_file;
                           temp_run_config_path_for_matlab =
                             temp_name env (''cfg_'' @ pkg_name @ ''_'' @ cid @ ''_'')
                       in case temp_fault env of
                            Some (CreationFails e) \<Rightarrow> (Raised e, fs)
                          | Some (WriteFails e) \<Rightarrow>
                              (Raised e, fs(temp_run_config_path_for_matlab \<mapsto> final))
                          | None \<Rightarrow>
                              (let fs1 = fs(temp_run_config_path_for_matlab \<mapsto> final);
                                   (ok, fs2) = session_run env
                                      [''python'', runner_script pkg_config,
                                       ''--matlab-script'', matlab_script_full_path,
                                       ''--run-config-json-path'',
                                       temp_run_config_path_for_matlab] fs1;
                                   outcome = (if ok then Completed else Raised CommandFailed)
                               in if fs2 temp_run_config_path_for_matlab \<noteq> None then
                                    (case remove_fault env of
                                       Some e \<Rightarrow> (Raised e, fs2)
                                     | None \<Rightarrow>
                                         (outcome, fs2(temp_run_config_path_for_matlab := None)))
                                  else (outcome, fs2))))))))"

definition benchmark_session ::
  "nox_env \<Rightarrow> string \<Rightarrow> package_config \<Rightarrow> string \<Rightarrow> case_config \<Rightarrow> files
     \<Rightarrow> cell_outcome \<times> files" where
  "benchmark_session env pkg_name_type pkg_config cid cc fs =
     (case provision env of
        Some e \<Rightarrow> (Raised e, fs)
      | None \<Rightarrow>
        (let pkg_name = lower pkg_name_type;
             final = final_run_config (results_dir env) pkg_name_type cid cc
         in if pkg_name = ''numbacs'' \<or> pkg_name = ''dynlab'' then
              (let (ok, fs') = session_run env
                     [''python'', runner_script pkg_config,
                      ''--run-config-json'', json_dumps env final] fs
               in (if ok then Completed else Raised CommandFailed, fs'))
            else if pkg_name = ''lcstool'' then
              external_interpreter_cell env pkg_name pkg_config cid cc final fs
            else (Skipped, fs)))"

text \<open>
  What \<^verbatim>\<open>session.run\<close> does with the command of an external-interpreter cell: it runs the
  MATLAB runner's \<^verbatim>\<open>main\<close> on the two paths of the command line and succeeds when that
  process exits with status 0.
\<close>

fun run_matlab_runner :: "matlab_env \<Rightarrow> string list \<Rightarrow> files \<Rightarrow> bool \<times> files" where
  "run_matlab_runner menv [python, script, flag1, matlab_script_full_path, flag2, config_path] fs =
     (let (status, r) = matlab_main menv
            \<lparr>matlab_script = matlab_script_full_path, run_config_json_path = config_path,
             matlab_executable = ''matlab'', expected_iter_time = JInt 200\<rparr> fs
      in (status = 0, files_after r))"
| "run_matlab_runner menv cmd fs = (False, fs)"

section \<open>The result aggregator\<close>

text \<open>
  Parsing a string as a number (\<^verbatim>\<open>int(s)\<close>, \<^verbatim>\<open>float(s)\<close>) is library behaviour and an
  input of the model. \<^verbatim>\<open>float\<close> of an int raises \<^verbatim>\<open>OverflowError\<close> when the int,
  rounded to the nearest double, is beyond the largest one, that is from
  \<^verbatim>\<open>2**1024 - 2**970\<close> on in absolute value.
\<close>

record builtins =
  int_of_str :: "string \<Rightarrow> int option"
  float_of_str :: "string \<Rightarrow> fl option"

fun py_int :: "builtins \<Rightarrow> json \<Rightarrow> error + int" where
  "py_int b (JInt i) = Inr i"
| "py_int b (JBool v) = Inr (if v then 1 else 0)"
| "py_int b (JNum (Fin x)) = Inr (if 0 \<le> x then \<lfloor>x\<rfloor> else \<lceil>x\<rceil>)"
| "py_int b (JNum NaN) = Inl (ValueError ''cannot convert float NaN to integer'')"
| "py_int b (JNum x) = Inl OverflowError"
| "py_int b (JStr s) =
     (case int_of_str b s of
        None \<Rightarrow> Inl (ValueError ''invalid literal for int()'')
      | Some i \<Rightarrow> Inr i)"
| "py_int b v = Inl TypeError"

fun py_float :: "builtins \<Rightarrow> json \<Rightarrow> error + fl" where
  "py_float b (JInt i) =
     (if \<bar>i\<bar> < 2 ^ 1024 - 2 ^ 970 then Inr (Fin (of_int i)) else Inl OverflowError)"
| "py_float b (JBool v) = Inr (Fin (if v then 1 else 0))"
| "py_float b (JNum x) = Inr x"
| "py_float b (JStr s) =
     (case float_of_str b s of
        None \<Rightarrow> Inl (ValueError ''could not convert string to float'')
      | Some x \<Rightarrow> Inr x)"
| "py_float b v = Inl TypeError"

text \<open>\<^verbatim>\<open>s.replace("_", " ").upper()\<close> on ASCII text, and the string methods exist on
  strings only.\<close>

fun upper_char :: "char \<Rightarrow> char" where
  "upper_char (Char b0 b1 b2 b3 b4 b5 b6 b7) =
     (let n = (of_char (Char b0 b1 b2 b3 b4 b5 b6 b7) :: nat)
      in if 97 \<le> n \<and> n \<le> 122 then Char b0 b1 b2 b3 b4 False b6 b7
         else Char b0 b1 b2 b3 b4 b5 b6 b7)"

definition normalized_case_id :: "string \<Rightarrow> string" where
  "normalized_case_id cid = map upper_char (map (\<lambda>c. if c = CHR ''_'' then CHR '' '' else c) cid)"

fun as_str :: "json \<Rightarrow> error + string" where
  "as_str (JStr s) = Inr s"
| "as_str v = Inl AttributeError"

record aggregated_record =
  package :: json
  case_id :: string
  case_description :: json
  iterates_per_run :: int
  num_benchmark_runs :: int
  mean_iter_s :: fl
  std_iter_s :: fl
  mae :: fl

text \<open>The projection of one parsed document; the entries of the record are evaluated in the
  order of the dict display in the source, and the default description is computed whether or
  not it is used.\<close>

definition project_record :: "builtins \<Rightarrow> json \<Rightarrow> error + aggregated_record" where
  "project_record b data =
     then_do (subscript data ''metadata'') (\<lambda>metadata.
     then_do (subscript data ''parameters'') (\<lambda>params.
     then_do (subscript data ''timings'') (\<lambda>timing_data.
     then_do (subscript metadata ''package_name'') (\<lambda>pkg.
     then_do (subscript metadata ''case_id'') (\<lambda>cid_value.
     then_do (as_str cid_value) (\<lambda>cid.
     then_do (dict_get metadata ''case_description'' (JStr (normalized_case_id cid))) (\<lambda>desc.
     then_do (subscript params ''iterates_per_run'') (\<lambda>ipr_value.
     then_do (py_int b ipr_value) (\<lambda>ipr.
     then_do (subscript params ''num_benchmark_runs'') (\<lambda>nbr_value.
     then_do (py_int b nbr_value) (\<lambda>nbr.
     then_do (subscript timing_data ''mean_per_iter_time'') (\<lambda>mean_value.
     then_do (py_float b mean_value) (\<lambda>mean.
     then_do (dict_get timing_data ''std_per_iter_time'' (JNum NaN)) (\<lambda>std_value.
     then_do (py_float b std_value) (\<lambda>std.
     then_do (dict_get data ''error_metrics'' (JObj [])) (\<lambda>error_metrics.
     then_do (dict_get error_metrics ''mae'' (JNum NaN)) (\<lambda>mae_value.
     then_do (py_float b mae_value) (\<lambda>mae_number.
       Inr \<lparr>package = pkg, case_id = cid, case_description = desc,
            iterates_per_run = ipr, num_benchmark_runs = nbr,
            mean_iter_s = mean, std_iter_s = std, mae = mae_number\<rparr>))))))))))))))))))"

text \<open>\<^verbatim>\<open>glob("*_results.json")\<close> on a file name: the star does not match a leading dot.\<close>

definition glob_results :: "string \<Rightarrow> bool" where
  "glob_results filename = (suffix ''_results.json'' filename \<and> \<not> prefix ''.'' filename)"

text \<open>
  The results directory as the aggregator sees it: the file names in listing order, each with
  the JSON value it parses to, or \<open>None\<close> when it cannot be read or parsed. Every exception
  of one file is caught and that file is skipped.
\<close>

fun load_benchmark_data :: "builtins \<Rightarrow> (string \<times> json option) list \<Rightarrow> aggregated_record list" where
  "load_benchmark_data b [] = []"
| "load_benchmark_data b ((filename, content) # rest) =
     (if \<not> glob_results filename then load_benchmark_data b rest
      else if contains ''_error'' (lower filename) then load_benchmark_data b rest
      else
        (case content of
           None \<Rightarrow> load_benchmark_data b rest
         | Some data \<Rightarrow>
             (case project_record b data of
                Inl e \<Rightarrow> load_benchmark_data b rest
              | Inr record \<Rightarrow> record # load_benchmark_data b rest)))"

section \<open>The report generator\<close>

text \<open>Python text whose characters matter one by one is a list of Unicode code points.\<close>

type_synonym pystr = "nat list"

definition ascii :: "string \<Rightarrow> pystr" where
  "ascii s = map of_char s"

text \<open>
  What is printed for a float depends on the double it is, digit by digit. The operations on
  floats whose result ends up in the text of a table are therefore inputs, as Python and its
  libraries perform them: the division of two doubles (IEEE 754 as numpy divides, infinite or
  NaN for a divisor of zero; Python's own division agrees with it for every other divisor),
  the format \<^verbatim>\<open>.2f\<close>, \<^verbatim>\<open>float(s)\<close> on a text, the format \<^verbatim>\<open>g\<close>, and the two tests
  \<^verbatim>\<open>_isint\<close> and \<^verbatim>\<open>_isnumber\<close> by which tabulate decides whether a text cell reads as
  an integer or as a number. The values of \<open>fl\<close> have one zero: a mean of 0 is the double
  +0.0, and a result file with a mean of -0.0 has no counterpart.
\<close>

record python_floats =
  true_divide :: "fl \<Rightarrow> fl \<Rightarrow> fl"
  format_2f :: "fl \<Rightarrow> pystr"
  float_of_text :: "pystr \<Rightarrow> fl option"
  format_g :: "fl \<Rightarrow> pystr"
  isint_text :: "pystr \<Rightarrow> bool"
  isnumber_text :: "pystr \<Rightarrow> bool"

definition SPEEDUP_BASELINE_PACKAGE :: string where
  "SPEEDUP_BASELINE_PACKAGE = ''NumbaCS''"

text \<open>\<^verbatim>\<open>pd.notnull\<close> on a float: everything but NaN. The suffix of the slowdown form is
  SUPERSCRIPT MINUS (U+207B) followed by SUPERSCRIPT ONE (U+00B9).\<close>

definition notnull :: "fl \<Rightarrow> bool" where
  "notnull x = (x \<noteq> NaN)"

definition speedup_col_fmt :: "python_floats \<Rightarrow> fl \<Rightarrow> pystr" where
  "speedup_col_fmt py speedup =
     (if notnull speedup \<and> fl_le (Fin 1) speedup then format_2f py speedup
      else if notnull speedup \<and> fl_less (Fin 0) speedup \<and> fl_less speedup (Fin 1)
      then ascii ''('' @ format_2f py (true_divide py (Fin 1) speedup) @ ascii '')''
           @ [0x207B, 0xB9]
      else ascii ''N/A'')"

text \<open>
  One case group of \<^verbatim>\<open>generate_md_tables\<close>: the values of the speedup column, the columns
  of the table in their final order, and the cells of the speedup column after the formatters
  have been applied, which is the column handed to \<^verbatim>\<open>to_markdown\<close>. An empty group is
  skipped by the source and has no table.
\<close>

definition speedup_column :: "python_floats \<Rightarrow> aggregated_record list \<Rightarrow> fl list" where
  "speedup_column py grp =
     (case filter (\<lambda>r. package r = JStr SPEEDUP_BASELINE_PACKAGE) grp of
        [] \<Rightarrow> map (\<lambda>r. NaN) grp
      | baseline_row # others \<Rightarrow>
          (let baseline_time = mean_iter_s baseline_row
           in if fl_less (Fin 0) baseline_time
              then map (\<lambda>r. true_divide py baseline_time (mean_iter_s r)) grp
              else map (\<lambda>r. NaN) grp))"

definition speedup_col_name :: string where
  "speedup_col_name = ''Speedup (vs '' @ SPEEDUP_BASELINE_PACKAGE @ '')''"

fun table_columns :: "aggregated_record list \<Rightarrow> string list" where
  "table_columns [] = []"
| "table_columns (first # rest) =
     (let grp = first # rest; num_b_runs = num_benchmark_runs first
      in [''Package'', ''Mean /Iter (s)'']
         @ (if 1 < num_b_runs \<and> filter (\<lambda>r. notnull (std_iter_s r)) grp \<noteq> []
            then [''Std /Iter (s)''] else [])
         @ [speedup_col_name]
         @ (if filter (\<lambda>r. notnull (mae r)) grp \<noteq> [] then [''MAE''] else []))"

definition formatted_speedup_column :: "python_floats \<Rightarrow> aggregated_record list \<Rightarrow> pystr list" where
  "formatted_speedup_column py grp = map (speedup_col_fmt py) (speedup_column py grp)"

text \<open>
  \<^verbatim>\<open>table_data.to_markdown(index=False)\<close> prints the table with tabulate, and number
  parsing is not switched off. Tabulate gives every cell a type (of a text cell: bool for the
  texts \<^verbatim>\<open>True\<close> and \<^verbatim>\<open>False\<close>, int or float when the text reads as one, else str) and
  every column the most general type of its cells, in the order bool, int, float, str. The
  cells of a float column are printed anew, as \<^verbatim>\<open>format(float(cell), "g")\<close>, and
  \<^verbatim>\<open>float\<close> raises for a text it cannot convert; the cells of every other column are
  printed as they are. Tabulate then pads each cell with blanks to the width of its column; the
  cells are given here without the padding.
\<close>

datatype cell_type = BoolType | IntType | FloatType | StrType

definition type_of_cell :: "python_floats \<Rightarrow> pystr \<Rightarrow> cell_type" where
  "type_of_cell py cell =
     (if cell = ascii ''True'' \<or> cell = ascii ''False'' then BoolType
      else if isint_text py cell then IntType
      else if isnumber_text py cell then FloatType
      else StrType)"

fun more_generic :: "cell_type \<Rightarrow> cell_type \<Rightarrow> cell_type" where
  "more_generic StrType t = StrType"
| "more_generic t StrType = StrType"
| "more_generic FloatType t = FloatType"
| "more_generic t FloatType = FloatType"
| "more_generic IntType t = IntType"
| "more_generic t IntType = IntType"
| "more_generic BoolType BoolType = BoolType"

definition column_type :: "python_floats \<Rightarrow> pystr list \<Rightarrow> cell_type" where
  "column_type py cells = foldl more_generic BoolType (map (type_of_cell py) cells)"

definition format_cell :: "python_floats \<Rightarrow> cell_type \<Rightarrow> pystr \<Rightarrow> error + pystr" where
  "format_cell py valtype val =
     (if valtype = FloatType then
        (case float_of_text py val of
           None \<Rightarrow> Inl (ValueError ''could not convert string to float'')
         | Some x \<Rightarrow> Inr (format_g py x))
      else Inr val)"

fun format_cells :: "python_floats \<Rightarrow> cell_type \<Rightarrow> pystr list \<Rightarrow> error + pystr list" where
  "format_cells py valtype [] = Inr []"
| "format_cells py valtype (val # vals) =
     then_do (format_cell py valtype val) (\<lambda>cell.
     then_do (format_cells py valtype vals) (\<lambda>cells. Inr (cell # cells)))"

definition markdown_column :: "python_floats \<Rightarrow> pystr list \<Rightarrow> error + pystr list" where
  "markdown_column py cells = format_cells py (column_type py cells) cells"

text \<open>The speedup column of a case group as the section file of the report shows it.\<close>

definition speedup_cells :: "python_floats \<Rightarrow> aggregated_record list \<Rightarrow> error + pystr list" where
  "speedup_cells py grp = markdown_column py (formatted_speedup_column py grp)"

text \<open>The groups of a report: one per case id, case ids in sorted order, each group in the
  order of the data frame.\<close>

definition case_groups :: "aggregated_record list \<Rightarrow> (string \<times> aggregated_record list) list" where
  "case_groups df =
     map (\<lambda>cid. (cid, filter (\<lambda>r. case_id r = cid) df)) (sort (remdups (map case_id df)))"

section \<open>Splicing the report into the host document\<close>

definition BENCHMARK_SECTION_START_PLACEHOLDER :: pystr where
  "BENCHMARK_SECTION_START_PLACEHOLDER = ascii ''<!-- BENCHMARK_RESULTS_START -->''"

definition BENCHMARK_SECTION_END_PLACEHOLDER :: pystr where
  "BENCHMARK_SECTION_END_PLACEHOLDER = ascii ''<!-- BENCHMARK_RESULTS_END -->''"

text \<open>The characters \<^verbatim>\<open>str.strip()\<close> removes: those Python counts as whitespace.\<close>

definition py_isspace :: "nat \<Rightarrow> bool" where
  "py_isspace c =
     ((9 \<le> c \<and> c \<le> 13) \<or> (28 \<le> c \<and> c \<le> 32) \<or> c = 0x85 \<or> c = 0xA0 \<or> c = 0x1680
      \<or> (0x2000 \<le> c \<and> c \<le> 0x200A) \<or> c = 0x2028 \<or> c = 0x2029 \<or> c = 0x202F
      \<or> c = 0x205F \<or> c = 0x3000)"

definition strip :: "pystr \<Rightarrow> pystr" where
  "strip t = rev (dropWhile py_isspace (rev (dropWhile py_isspace t)))"

fun join :: "pystr \<Rightarrow> pystr list \<Rightarrow> pystr" where
  "join sep [] = []"
| "join sep [x] = x"
| "join sep (x # y # ys) = x @ sep @ join sep (y # ys)"

text \<open>
  The search of the pattern \<^verbatim>\<open>START(.*?)END\<close> with \<^verbatim>\<open>re.DOTALL\<close>: the leftmost position
  where the start marker is followed, anywhere later, by the end marker; the lazy group ends at
  the first end marker after the start marker. The result is the text before the match, the
  group between the markers, and the text after the match.
\<close>

fun find_marker :: "pystr \<Rightarrow> pystr \<Rightarrow> (pystr \<times> pystr) option" where
  "find_marker mk [] = (if mk = [] then Some ([], []) else None)"
| "find_marker mk (c # cs) =
     (if prefix mk (c # cs) then Some ([], drop (length mk) (c # cs))
      else map_option (\<lambda>(before, after). (c # before, after)) (find_marker mk cs))"

fun search_block :: "pystr \<Rightarrow> (pystr \<times> pystr \<times> pystr) option" where
  "search_block [] = None"
| "search_block (c # cs) =
     (let later = map_option (\<lambda>(pre, mid, post). (c # pre, mid, post)) (search_block cs)
      in if prefix BENCHMARK_SECTION_START_PLACEHOLDER (c # cs) then
           (case find_marker BENCHMARK_SECTION_END_PLACEHOLDER
                   (drop (length BENCHMARK_SECTION_START_PLACEHOLDER) (c # cs)) of
              Some (mid, post) \<Rightarrow> Some ([], mid, post)
            | None \<Rightarrow> later)
         else later)"

text \<open>
  Files here are texts as \<^verbatim>\<open>read()\<close> returns them. The five ways the update can end; the
  function returns \<^verbatim>\<open>True\<close> for the last two.
\<close>

type_synonym text_files = "string \<rightharpoonup> pystr"

datatype update_report =
  ReadmeNotFound | PlaceholdersNotFound | WriteFailed | SuccessfullyUpdated | NoChangesNeeded

definition full_benchmark_content_md :: "string list \<Rightarrow> text_files \<Rightarrow> pystr" where
  "full_benchmark_content_md sorted_table_filepaths fs =
     (if sorted_table_filepaths = []
      then ascii ''No benchmark results to display at this time.''
      else join (ascii [CHR 0x0A, CHR 0x0A, CHR ''-'', CHR ''-'', CHR ''-'', CHR 0x0A, CHR 0x0A])
             (concat (map (\<lambda>table_path. case fs table_path of None \<Rightarrow> [] | Some t \<Rightarrow> [t])
                        sorted_table_filepaths)))"

definition new_block_content :: "pystr \<Rightarrow> pystr" where
  "new_block_content content =
     BENCHMARK_SECTION_START_PLACEHOLDER @ [10, 10] @ strip content @ [10, 10]
     @ BENCHMARK_SECTION_END_PLACEHOLDER"

definition assemble_and_update_readme ::
  "(string \<Rightarrow> bool) \<Rightarrow> string \<Rightarrow> string list \<Rightarrow> text_files \<Rightarrow> update_report \<times> text_files" where
  "assemble_and_update_readme can_write readme_filepath sorted_table_filepaths fs =
     (let content = full_benchmark_content_md sorted_table_filepaths fs
      in case fs readme_filepath of
           None \<Rightarrow> (ReadmeNotFound, fs)
         | Some readme_text \<Rightarrow>
           (case search_block readme_text of
              None \<Rightarrow> (PlaceholdersNotFound, fs)
            | Some (pre, mid, post) \<Rightarrow>
              (let updated_readme_text = pre @ new_block_content content @ post
               in if updated_readme_text \<noteq> readme_text then
                    (if can_write readme_filepath
                     then (SuccessfullyUpdated,
                           fs(readme_filepath \<mapsto> strip updated_readme_text @ [10]))
                     else (WriteFailed, fs))
                  else (NoChangesNeeded, fs))))"

section \<open>Sample inputs\<close>

text \<open>
  A world in which the clock advances by one second between two readings, nothing external
  fails and every path can be written.
\<close>

definition steady_world :: world where
  "steady_world =
     \<lparr>perf_clock = real, np_load = (\<lambda>path. None), provider_setup = (\<lambda>flow_data. None),
      reference_mae = (\<lambda>reference. Inr (Fin 0)), writable = (\<lambda>path. True)\<rparr>"

text \<open>The arithmetic mean and the population standard deviation of real samples, as
  statistics defines them.\<close>

definition arithmetic_mean :: "real list \<Rightarrow> real" where
  "arithmetic_mean xs = sum_list xs / real (length xs)"

definition population_std :: "real list \<Rightarrow> real" where
  "population_std xs =
     sqrt (sum_list (map (\<lambda>x. (x - arithmetic_mean xs)\<^sup>2) xs) / real (length xs))"

text \<open>The three runner functions.\<close>

definition runner_functions ::
  "(world \<Rightarrow> json \<Rightarrow> string \<Rightarrow> int \<Rightarrow> int \<Rightarrow> json \<Rightarrow> json \<Rightarrow> files \<Rightarrow> error + (files \<times> meter)) set" where
  "runner_functions = {run_numbacs_predefined_ftle, run_numbacs_data_ftle, run_dynlab_ftle}"

text \<open>
  The wall-clock duration of each outer repeat: the warm-up takes the first two clock readings,
  and repeat \<open>i\<close> lies between the readings \<open>2 i + 2\<close> and \<open>2 i + 3\<close>.
\<close>

definition repeat_durations :: "world \<Rightarrow> int \<Rightarrow> real list" where
  "repeat_durations w num_runs =
     map (\<lambda>i. perf_clock w (2 * i + 3) - perf_clock w (2 * i + 2)) [0..<nat num_runs]"

text \<open>The metadata the dispatcher attaches to the NumbaCS cell of the double-gyre case, and
  that case's flow data without its \<^verbatim>\<open>domain\<close> entry.\<close>

definition numbacs_dg_metadata :: json where
  "numbacs_dg_metadata = session_metadata ''NumbaCS'' ''dg_ftle'' dg_ftle"

definition dg_flow_data_without_domain :: json where
  "dg_flow_data_without_domain =
     JObj [(''flow_str'', JStr ''double_gyre''),
           (''grid_shape'', JArr [JInt 201, JInt 101]),
           (''t0'', JNum (Fin 0)), (''T'', JNum (Fin 16)), (''dt0'', JNum (Fin (1/2)))]"

text \<open>The documents that the NumbaCS double-gyre cell writes in the steady world with three
  runs: with the configured 50 iterates per run, and with none.\<close>

definition steady_three_runs_document :: json where
  "steady_three_runs_document =
     results_document 50 3 []
       [(''warmup_time'', JNum (Fin 1)),
        (''loop_times'', JArr [JNum (Fin 1), JNum (Fin 1), JNum (Fin 1)]),
        (''per_iter_times'', JArr [JNum (Fin (1/50)), JNum (Fin (1/50)), JNum (Fin (1/50))]),
        (''mean_loop_time'', JNum (Fin 1)),
        (''mean_per_iter_time'', JNum (Fin (1/50))),
        (''std_loop_time'', JNum (Fin 0)),
        (''std_per_iter_time'', JNum (Fin 0))]
       numbacs_dg_metadata"

definition steady_zero_iterates_document :: json where
  "steady_zero_iterates_document =
     results_document 0 3 []
       [(''warmup_time'', JNum (Fin 1)),
        (''loop_times'', JArr [JNum (Fin 1), JNum (Fin 1), JNum (Fin 1)]),
        (''per_iter_times'', JArr [JNum PosInf, JNum PosInf, JNum PosInf]),
        (''mean_loop_time'', JNum (Fin 1)),
        (''mean_per_iter_time'', JNum PosInf),
        (''std_loop_time'', JNum (Fin 0)),
        (''std_per_iter_time'', JNum NaN)]
       numbacs_dg_metadata"

text \<open>
  The mean of the baseline record of a group, when the group has one: the first record of the
  baseline package.
\<close>

definition baseline_time :: "aggregated_record list \<Rightarrow> fl option" where
  "baseline_time grp =
     map_option mean_iter_s (find (\<lambda>r. package r = JStr SPEEDUP_BASELINE_PACKAGE) grp)"

text \<open>Records of the double-gyre case: the baseline at one second per iterate over three
  runs, a candidate with a mean of zero, and a single-run record.\<close>

definition baseline_one_second :: aggregated_record where
  "baseline_one_second =
     \<lparr>package = JStr ''NumbaCS'', case_id = ''dg_ftle'',
      case_description = JStr ''Double Gyre FTLE'', iterates_per_run = 50,
      num_benchmark_runs = 3, mean_iter_s = Fin 1, std_iter_s = Fin 0, mae = NaN\<rparr>"

definition candidate_zero_seconds :: aggregated_record where
  "candidate_zero_seconds =
     \<lparr>package = JStr ''Dynlab'', case_id = ''dg_ftle'',
      case_description = JStr ''Double Gyre FTLE'', iterates_per_run = 50,
      num_benchmark_runs = 3, mean_iter_s = Fin 0, std_iter_s = Fin 0, mae = NaN\<rparr>"

definition candidate_half_second :: aggregated_record where
  "candidate_half_second =
     \<lparr>package = JStr ''Dynlab'', case_id = ''dg_ftle'',
      case_description = JStr ''Double Gyre FTLE'', iterates_per_run = 50,
      num_benchmark_runs = 3, mean_iter_s = Fin (1/2), std_iter_s = Fin 0, mae = NaN\<rparr>"

text \<open>
  The operations of Python on floats and texts, tabulated on the values that occur in the group
  of the baseline at 1.0 s and the candidate at 0.5 s: 1.0 / 1.0 is 1.0 and 1.0 / 0.5 is 2.0;
  their \<^verbatim>\<open>.2f\<close> formats are "1.00" and "2.00"; neither text converts to an int, both
  convert to a float, 1.0 and 2.0; and the \<^verbatim>\<open>g\<close> formats of these are "1" and "2". The
  table says nothing about other values: its entries there are NaN, the empty text, and no
  number.
\<close>

definition python_on_sample :: python_floats where
  "python_on_sample =
     \<lparr>true_divide = (\<lambda>a b. if a = Fin 1 \<and> b = Fin 1 then Fin 1
                          else if a = Fin 1 \<and> b = Fin (1/2) then Fin 2 else NaN),
      format_2f = (\<lambda>x. if x = Fin 1 then ascii ''1.00''
                       else if x = Fin 2 then ascii ''2.00'' else []),
      float_of_text = (\<lambda>s. if s = ascii ''1.00'' then Some (Fin 1)
                           else if s = ascii ''2.00'' then Some (Fin 2) else None),
      format_g = (\<lambda>x. if x = Fin 1 then ascii ''1'' else if x = Fin 2 then ascii ''2'' else []),
      isint_text = (\<lambda>s. False),
      isnumber_text = (\<lambda>s. s = ascii ''1.00'' \<or> s = ascii ''2.00'')\<rparr>"

definition single_run_record :: aggregated_record where
  "single_run_record =
     \<lparr>package = JStr ''NumbaCS'', case_id = ''dg_ftle'',
      case_description = JStr ''Double Gyre FTLE'', iterates_per_run = 50,
      num_benchmark_runs = 1, mean_iter_s = Fin 1, std_iter_s = Fin 0, mae = NaN\<rparr>"

text \<open>
  A MATLAB that always runs into the timeout, and a dispatcher environment whose
  \<^verbatim>\<open>session.run\<close> starts the MATLAB runner with it.
\<close>

definition timing_out_matlab :: matlab_env where
  "timing_out_matlab =
     \<lparr>abspath = (\<lambda>p. ''/repo/'' @ p), script_isfile = (\<lambda>p. True),
      subprocess_run = (\<lambda>cmd t fs. (TimeoutExpired, fs))\<rparr>"

definition lcstool_nox_env :: nox_env where
  "lcstool_nox_env =
     \<lparr>provision = None, results_dir = ''/repo/results'',
      lcstool_path = Some ''/opt/LCStool'',
      temp_name = (\<lambda>prefix. ''/repo/results/'' @ prefix @ ''k3x9.json''),
      temp_fault = None, remove_fault = None,
      json_dumps = (\<lambda>j. []),
      session_run = run_matlab_runner timing_out_matlab\<rparr>"

text \<open>The same environment on a disk that fills up while the temporary configuration is
  written.\<close>

definition full_disk_nox_env :: nox_env where
  "full_disk_nox_env =
     lcstool_nox_env\<lparr>temp_fault := Some (WriteFails (IOError ''No space left on device''))\<rparr>"

text \<open>The command line of the MATLAB runner for the double-gyre cell, with a value supplied
  for \<^verbatim>\<open>--expected_iter_time\<close>, and the files holding the cell's configuration.\<close>

definition lcstool_dg_args :: matlab_args where
  "lcstool_dg_args =
     \<lparr>matlab_script = ''runners/matlab_scripts/lcstool_dg_benchmark.m'',
      run_config_json_path = ''/repo/results/cfg_lcstool_dg_ftle_k3x9.json'',
      matlab_executable = ''matlab'', expected_iter_time = JStr ''5''\<rparr>"

definition lcstool_dg_files :: files where
  "lcstool_dg_files =
     [''/repo/results/cfg_lcstool_dg_ftle_k3x9.json''
        \<mapsto> final_run_config ''/repo/results'' ''LCStool'' ''dg_ftle'' dg_ftle]"

text \<open>
  The NumbaCS cell of the QGE case in a world where the velocity data cannot be loaded: the
  runner receives the dispatcher's configuration, and string parsing never succeeds.
\<close>

definition missing_data_world :: world where
  "missing_data_world = steady_world\<lparr>np_load := (\<lambda>path. Some (IOError ''qge_u.npy''))\<rparr>"

definition qge_cli :: cli where
  "qge_cli =
     \<lparr>json_loads = (\<lambda>raw. Some (final_run_config ''/repo/results'' ''NumbaCS'' ''qge_ftle''
                                    (qge_ftle ''/repo/data''))),
      exception_text = (\<lambda>e. ''FileNotFoundError: qge_u.npy''),
      untyped_call = (\<lambda>run_config fs. Inl TypeError)\<rparr>"

definition no_parsing :: builtins where
  "no_parsing = \<lparr>int_of_str = (\<lambda>s. None), float_of_str = (\<lambda>s. None)\<rparr>"

text \<open>
  A host document with an empty block between its markers, next to one section file; and the
  same with a section file whose text contains the end marker.
\<close>

definition sample_readme :: pystr where
  "sample_readme =
     ascii ''# Benchmarks'' @ [10] @ BENCHMARK_SECTION_START_PLACEHOLDER @ [10]
     @ BENCHMARK_SECTION_END_PLACEHOLDER @ [10]"

definition sample_docs :: text_files where
  "sample_docs =
     [''README.md'' \<mapsto> sample_readme,
      ''dg_ftle_benchmark_section.md'' \<mapsto> ascii ''### Double Gyre FTLE'']"

definition marker_docs :: text_files where
  "marker_docs =
     [''README.md'' \<mapsto> sample_readme,
      ''dg_ftle_benchmark_section.md''
        \<mapsto> ascii ''### '' @ BENCHMARK_SECTION_END_PLACEHOLDER @ ascii '' FTLE'']"

section \<open>Properties of the runner functions\<close>

subsection \<open>Sequencing\<close>

lemma then_do_Inr: "then_do r f = Inr y \<Longrightarrow> \<exists>x. r = Inr x \<and> f x = Inr y"
  by (cases r) simp_all

lemma unless_raised_Inr: "unless_raised raised r = Inr y \<Longrightarrow> raised = None \<and> r = Inr y"
  by (cases raised) simp_all

subsection \<open>numpy statistics on finite samples\<close>

lemma foldl_fl_add_Fin: "foldl fl_add (Fin a) (map Fin xs) = Fin (a + sum_list xs)"
  by (induction xs arbitrary: a) (simp_all add: add.assoc)

lemma np_mean_Fin: "xs \<noteq> [] \<Longrightarrow> np_mean (map Fin xs) = Fin (arithmetic_mean xs)"
  by (simp add: np_mean_def np_sum_def foldl_fl_add_Fin arithmetic_mean_def)

lemma squared_deviations_Fin:
  "map (\<lambda>x. let d = fl_abs (fl_sub x (Fin mu)) in fl_mul d d) (map Fin xs)
     = map Fin (map (\<lambda>x. (x - mu)\<^sup>2) xs)"
  by (induction xs) (simp_all add: fl_sub_def power2_eq_square)

lemma sum_list_squares_nonneg: "0 \<le> sum_list (map (\<lambda>x. (x - mu)\<^sup>2) xs)" for mu :: real
  by (induction xs) simp_all

lemma np_std_Fin: "xs \<noteq> [] \<Longrightarrow> np_std (map Fin xs) = Fin (population_std xs)"
proof -
  assume ne: "xs \<noteq> []"
  let ?sq = "map (\<lambda>x. (x - arithmetic_mean xs)\<^sup>2) xs"
  from ne have sq_ne: "?sq \<noteq> []" by simp
  have nonneg: "0 \<le> arithmetic_mean ?sq"
    unfolding arithmetic_mean_def [of ?sq]
    by (rule divide_nonneg_nonneg [OF sum_list_squares_nonneg]) simp
  have "np_std (map Fin xs) = fl_sqrt (Fin (arithmetic_mean ?sq))"
    unfolding np_std_def np_mean_Fin [OF ne] squared_deviations_Fin np_mean_Fin [OF sq_ne]
    by (rule refl)
  also have "\<dots> = Fin (sqrt (arithmetic_mean ?sq))"
    using nonneg by simp
  finally show ?thesis
    by (simp add: population_std_def arithmetic_mean_def)
qed

subsection \<open>The loops\<close>

lemma inner_iterates_meter:
  "inner_iterates ipr m = m\<lparr>calls := calls m + nat ipr\<rparr>"
proof -
  have "(compute_ftle ^^ k) m = m\<lparr>calls := calls m + k\<rparr>" for k
    by (induction k) (simp_all add: compute_ftle_def)
  then show ?thesis by (simp add: inner_iterates_def)
qed

lemma timed_loop_eq:
  "timed_loop clock ipr m =
     (clock (Suc (reads m)) - clock (reads m),
      m\<lparr>reads := reads m + 2, calls := calls m + nat ipr\<rparr>)"
  by (simp add: timed_loop_def perf_counter_def inner_iterates_meter)

lemma outer_runs_eq:
  "outer_runs clock ipr n m =
     (map (\<lambda>i. clock (reads m + 2 * i + 1) - clock (reads m + 2 * i)) [0..<n],
      m\<lparr>reads := reads m + 2 * n, calls := calls m + n * nat ipr\<rparr>)"
proof (induction n arbitrary: m)
  case 0
  show ?case by simp
next
  case (Suc n)
  show ?case
    by (simp add: timed_loop_eq Suc.IH map_upt_Suc del: upt_Suc)
qed

lemma timed_warmup_eq:
  "timed_warmup w m =
     (perf_clock w (Suc (reads m)) - perf_clock w (reads m),
      m\<lparr>reads := reads m + 2, calls := Suc (calls m)\<rparr>)"
  by (simp add: timed_warmup_def perf_counter_def compute_ftle_def)

lemma warmup_Inr:
  assumes "warmup w error_data m = Inr (warmup_time, error_entry, m')"
  shows "m' = m\<lparr>reads := reads m + 2, calls := Suc (calls m)\<rparr>"
    and "map_of error_entry ''timings'' = None"
  using assms
  by (auto simp: warmup_def timed_warmup_eq split: if_splits dest!: then_do_Inr)

text \<open>What a successful run has done: warmed up, timed the loops, and stored the document.\<close>

lemma warmup_benchmark_write_Inr:
  assumes "warmup_benchmark_write w path ipr nbr error_data metadata fs = Inr (fs', m')"
  shows "\<exists>warmup_time error_entry timing_data.
           map_of error_entry ''timings'' = None
         \<and> benchmark_loops (perf_clock w) ipr nbr warmup_time \<lparr>reads = 2, calls = 1\<rparr>
             = Inr (timing_data, m')
         \<and> fs' = fs(path \<mapsto> results_document ipr nbr error_entry timing_data metadata)"
proof -
  from assms obtain warmup_time error_entry m where
    wu: "warmup w error_data \<lparr>reads = 0, calls = 0\<rparr> = Inr (warmup_time, error_entry, m)"
    and rest: "then_do (benchmark_loops (perf_clock w) ipr nbr warmup_time m)
       (\<lambda>(timing_data, m').
          then_do (write_json w path
                (results_document ipr nbr error_entry timing_data metadata) fs)
            (\<lambda>fs'. Inr (fs', m'))) = Inr (fs', m')"
    unfolding warmup_benchmark_write_def by (auto dest!: then_do_Inr)
  from warmup_Inr [OF wu] have m: "m = \<lparr>reads = 2, calls = 1\<rparr>"
    and no_timings: "map_of error_entry ''timings'' = None" by simp_all
  from rest obtain timing_data where
    loops: "benchmark_loops (perf_clock w) ipr nbr warmup_time m = Inr (timing_data, m')"
    and wr: "write_json w path (results_document ipr nbr error_entry timing_data metadata) fs
               = Inr fs'"
    by (auto dest!: then_do_Inr)
  from wr have "fs' = fs(path \<mapsto> results_document ipr nbr error_entry timing_data metadata)"
    by (auto simp: write_json_def split: if_splits)
  with no_timings loops m show ?thesis by blast
qed

lemma runner_function_Inr:
  assumes "f \<in> runner_functions"
    and "f w flow_data path ipr nbr error_data metadata fs = Inr r"
  shows "warmup_benchmark_write w path ipr nbr error_data metadata fs = Inr r"
proof -
  from assms(1) consider "f = run_numbacs_predefined_ftle" | "f = run_numbacs_data_ftle"
    | "f = run_dynlab_ftle"
    by (auto simp: runner_functions_def)
  then show ?thesis
  proof cases
    case 1
    with assms(2) show ?thesis
      unfolding run_numbacs_predefined_ftle_def
      by (auto dest!: then_do_Inr unless_raised_Inr split: if_splits)
  next
    case 2
    with assms(2) show ?thesis
      unfolding run_numbacs_data_ftle_def
      by (auto dest!: then_do_Inr unless_raised_Inr split: if_splits)
  next
    case 3
    with assms(2) show ?thesis
      unfolding run_dynlab_ftle_def
      by (auto dest!: then_do_Inr unless_raised_Inr split: if_splits)
  qed
qed

lemma subscript_timings:
  "map_of error_entry ''timings'' = None \<Longrightarrow>
   subscript (results_document ipr nbr error_entry timing_data metadata) ''timings''
     = Inr (JObj timing_data)"
  by (simp add: results_document_def map_add_def)

lemma benchmark_loops_single:
  assumes "benchmark_loops clock ipr 1 warmup_time m = Inr (timing_data, m')"
  shows "map_of timing_data ''std_loop_time'' = Some (JNum (Fin 0))"
    and "map_of timing_data ''std_per_iter_time'' = Some (JNum (Fin 0))"
  using assms by (auto simp: benchmark_loops_def timed_loop_eq split: if_splits)

lemma benchmark_loops_counts_valid:
  "benchmark_loops clock ipr nbr warmup_time m = Inr r \<Longrightarrow> 1 \<le> nbr"
  by (auto simp: benchmark_loops_def split: if_splits)

lemma num_benchmark_runs_validated:
  assumes "f \<in> runner_functions" and "nbr < 1"
  shows "isl (f w flow_data path ipr nbr error_data metadata fs)"
proof (rule ccontr)
  assume "\<not> isl (f w flow_data path ipr nbr error_data metadata fs)"
  then obtain fs' m' where "f w flow_data path ipr nbr error_data metadata fs = Inr (fs', m')"
    by (cases "f w flow_data path ipr nbr error_data metadata fs") auto
  from runner_function_Inr [OF assms(1) this] have
    "warmup_benchmark_write w path ipr nbr error_data metadata fs = Inr (fs', m')" .
  from warmup_benchmark_write_Inr [OF this] benchmark_loops_counts_valid
  have "1 \<le> nbr" by blast
  with assms(2) show False by simp
qed

text \<open>
  Claim C3. For every cell whose runs-per-benchmark equals 1, the result document's
  \<^verbatim>\<open>std_loop_time\<close> and \<^verbatim>\<open>std_per_iter_time\<close> are exactly 0.0: whichever runner function
  wrote the document, whatever the clock returned and whatever the other inputs were, the two
  entries are the constant and do not depend on the timing sample.
\<close>

theorem single_run_std_is_zero:
  assumes "f \<in> runner_functions"
    and "f w flow_data path ipr 1 error_data metadata fs = Inr (fs', m)"
  shows "\<exists>doc timings. fs' path = Some doc \<and> subscript doc ''timings'' = Inr timings
           \<and> subscript timings ''std_loop_time'' = Inr (JNum (Fin 0))
           \<and> subscript timings ''std_per_iter_time'' = Inr (JNum (Fin 0))"
proof -
  from runner_function_Inr [OF assms] have
    "warmup_benchmark_write w path ipr 1 error_data metadata fs = Inr (fs', m)" .
  from warmup_benchmark_write_Inr [OF this] obtain warmup_time error_entry timing_data where
    no_timings: "map_of error_entry ''timings'' = None"
    and loops: "benchmark_loops (perf_clock w) ipr 1 warmup_time \<lparr>reads = 2, calls = 1\<rparr>
                  = Inr (timing_data, m)"
    and fs': "fs' = fs(path \<mapsto> results_document ipr 1 error_entry timing_data metadata)"
    by blast
  let ?doc = "results_document ipr 1 error_entry timing_data metadata"
  have "fs' path = Some ?doc" using fs' by simp
  moreover have "subscript ?doc ''timings'' = Inr (JObj timing_data)"
    by (rule subscript_timings [OF no_timings])
  moreover have "subscript (JObj timing_data) ''std_loop_time'' = Inr (JNum (Fin 0))"
    and "subscript (JObj timing_data) ''std_per_iter_time'' = Inr (JNum (Fin 0))"
    using benchmark_loops_single [OF loops] by simp_all
  ultimately show ?thesis by blast
qed

lemma steady_dg_single_run:
  "run_numbacs_predefined_ftle steady_world dg_ftle_flow_data
     ''results/numbacs_dg_ftle_results.json'' 50 1 (JObj []) numbacs_dg_metadata Map.empty
   = Inr ([''results/numbacs_dg_ftle_results.json'' \<mapsto>
            results_document 50 1 []
              [(''warmup_time'', JNum (Fin 1)),
               (''mean_loop_time'', JNum (Fin 1)),
               (''mean_per_iter_time'', JNum (Fin (1/50))),
               (''std_loop_time'', JNum (Fin 0)),
               (''std_per_iter_time'', JNum (Fin 0))] numbacs_dg_metadata],
          \<lparr>reads = 4, calls = 51\<rparr>)"
  by (simp add: run_numbacs_predefined_ftle_def numbacs_predefined_req_keys_def
      dg_ftle_flow_data_def numbacs_dg_metadata_def session_metadata_def steady_world_def
      warmup_benchmark_write_def warmup_def timed_warmup_eq benchmark_loops_def timed_loop_eq
      write_json_def)

text \<open>Claim C3 at the NumbaCS double-gyre cell in the steady world, with one run.\<close>

theorem single_run_std_is_zero_witness:
  "run_numbacs_predefined_ftle \<in> runner_functions
   \<and> run_numbacs_predefined_ftle steady_world dg_ftle_flow_data
       ''results/numbacs_dg_ftle_results.json'' 50 1 (JObj []) numbacs_dg_metadata Map.empty
     = Inr ([''results/numbacs_dg_ftle_results.json'' \<mapsto>
              results_document 50 1 []
                [(''warmup_time'', JNum (Fin 1)),
                 (''mean_loop_time'', JNum (Fin 1)),
                 (''mean_per_iter_time'', JNum (Fin (1/50))),
                 (''std_loop_time'', JNum (Fin 0)),
                 (''std_per_iter_time'', JNum (Fin 0))] numbacs_dg_metadata],
            \<lparr>reads = 4, calls = 51\<rparr>)
   \<and> (\<exists>doc timings.
         [''results/numbacs_dg_ftle_results.json'' \<mapsto>
            results_document 50 1 []
              [(''warmup_time'', JNum (Fin 1)),
               (''mean_loop_time'', JNum (Fin 1)),
               (''mean_per_iter_time'', JNum (Fin (1/50))),
               (''std_loop_time'', JNum (Fin 0)),
               (''std_per_iter_time'', JNum (Fin 0))] numbacs_dg_metadata]
           ''results/numbacs_dg_ftle_results.json'' = Some doc
         \<and> subscript doc ''timings'' = Inr timings
         \<and> subscript timings ''std_loop_time'' = Inr (JNum (Fin 0))
         \<and> subscript timings ''std_per_iter_time'' = Inr (JNum (Fin 0)))"
proof -
  have member: "run_numbacs_predefined_ftle \<in> runner_functions"
    by (simp add: runner_functions_def)
  from single_run_std_is_zero [OF member steady_dg_single_run] member steady_dg_single_run
  show ?thesis by blast
qed

lemma benchmark_loops_multi:
  assumes "1 < nbr"
    and "benchmark_loops (perf_clock w) ipr nbr warmup_time \<lparr>reads = 2, calls = 1\<rparr>
           = Inr (timing_data, m')"
  shows "m' = \<lparr>reads = 2 + 2 * nat nbr, calls = 1 + nat nbr * nat ipr\<rparr>"
    and "timing_data =
           [(''warmup_time'', JNum (Fin warmup_time)),
            (''loop_times'', JArr (map JNum (map Fin (repeat_durations w nbr)))),
            (''per_iter_times'',
             JArr (map JNum (map (\<lambda>t. fl_div t (Fin (of_int ipr)))
                               (map Fin (repeat_durations w nbr))))),
            (''mean_loop_time'', JNum (np_mean (map Fin (repeat_durations w nbr)))),
            (''mean_per_iter_time'',
             JNum (np_mean (map (\<lambda>t. fl_div t (Fin (of_int ipr)))
                              (map Fin (repeat_durations w nbr))))),
            (''std_loop_time'', JNum (np_std (map Fin (repeat_durations w nbr)))),
            (''std_per_iter_time'',
             JNum (np_std (map (\<lambda>t. fl_div t (Fin (of_int ipr)))
                             (map Fin (repeat_durations w nbr)))))]"
      (is "timing_data = ?table")
proof -
  have durations: "map (\<lambda>i. perf_clock w (2 + 2 * i + 1) - perf_clock w (2 + 2 * i)) [0..<nat nbr]
                     = repeat_durations w nbr"
    by (simp add: repeat_durations_def add.commute numeral_3_eq_3)
  have runs: "outer_runs (perf_clock w) ipr (nat nbr) \<lparr>reads = 2, calls = 1\<rparr>
                = (repeat_durations w nbr,
                   \<lparr>reads = 2 + 2 * nat nbr, calls = 1 + nat nbr * nat ipr\<rparr>)"
    unfolding outer_runs_eq by (simp add: durations [simplified])
  from assms have result:
    "(timing_data, m') =
       ([(''warmup_time'', JNum (Fin warmup_time)),
            (''loop_times'', JArr (map JNum (map Fin (repeat_durations w nbr)))),
            (''per_iter_times'',
             JArr (map JNum (map (\<lambda>t. fl_div t (Fin (of_int ipr)))
                               (map Fin (repeat_durations w nbr))))),
            (''mean_loop_time'', JNum (np_mean (map Fin (repeat_durations w nbr)))),
            (''mean_per_iter_time'',
             JNum (np_mean (map (\<lambda>t. fl_div t (Fin (of_int ipr)))
                              (map Fin (repeat_durations w nbr))))),
            (''std_loop_time'', JNum (np_std (map Fin (repeat_durations w nbr)))),
            (''std_per_iter_time'',
             JNum (np_std (map (\<lambda>t. fl_div t (Fin (of_int ipr)))
                             (map Fin (repeat_durations w nbr)))))],
        \<lparr>reads = 2 + 2 * nat nbr, calls = 1 + nat nbr * nat ipr\<rparr>)"
    unfolding benchmark_loops_def runs Let_def by (simp del: map_map)
  from result show "m' = \<lparr>reads = 2 + 2 * nat nbr, calls = 1 + nat nbr * nat ipr\<rparr>"
    by (rule Pair_inject) simp
  from result show "timing_data = ?table"
    by (rule Pair_inject)
qed

lemma per_iter_samples_Fin:
  "ipr \<noteq> 0 \<Longrightarrow>
   map (\<lambda>t. fl_div t (Fin (of_int ipr))) (map Fin ds) = map Fin (map (\<lambda>d. d / of_int ipr) ds)"
  by simp

text \<open>
  Claim C4. For every cell whose runs-per-benchmark is greater than 1: the clock is read twice
  per outer repeat, before and after its inner iterates, whatever their number (the meter ends
  at two readings for the warm-up plus two per repeat, and one computation for the warm-up plus
  one per iterate); \<^verbatim>\<open>loop_times\<close> are those durations; and, the iterate count not being zero,
  each per-iterate sample is the repeat's duration divided by the iterate count, and the
  reported mean and standard deviation per iterate are the arithmetic mean and the population
  standard deviation of the samples. Timing values are real numbers here.
\<close>

theorem multi_run_statistics:
  assumes "f \<in> runner_functions" and "1 < nbr"
    and "f w flow_data path ipr nbr error_data metadata fs = Inr (fs', m)"
  shows "\<exists>doc timings.
           fs' path = Some doc \<and> subscript doc ''timings'' = Inr timings
         \<and> reads m = 2 + 2 * nat nbr \<and> calls m = 1 + nat nbr * nat ipr
         \<and> subscript timings ''loop_times''
             = Inr (JArr (map (\<lambda>d. JNum (Fin d)) (repeat_durations w nbr)))
         \<and> (ipr \<noteq> 0 \<longrightarrow>
              (let samples = map (\<lambda>d. d / of_int ipr) (repeat_durations w nbr)
               in subscript timings ''per_iter_times'' = Inr (JArr (map (\<lambda>s. JNum (Fin s)) samples))
                \<and> subscript timings ''mean_per_iter_time'' = Inr (JNum (Fin (arithmetic_mean samples)))
                \<and> subscript timings ''std_per_iter_time'' = Inr (JNum (Fin (population_std samples)))))"
proof -
  from runner_function_Inr [OF assms(1,3)] have
    "warmup_benchmark_write w path ipr nbr error_data metadata fs = Inr (fs', m)" .
  from warmup_benchmark_write_Inr [OF this] obtain warmup_time error_entry timing_data where
    no_timings: "map_of error_entry ''timings'' = None"
    and loops: "benchmark_loops (perf_clock w) ipr nbr warmup_time \<lparr>reads = 2, calls = 1\<rparr>
                  = Inr (timing_data, m)"
    and fs': "fs' = fs(path \<mapsto> results_document ipr nbr error_entry timing_data metadata)"
    by blast
  let ?doc = "results_document ipr nbr error_entry timing_data metadata"
  let ?ds = "repeat_durations w nbr"
  let ?samples = "map (\<lambda>d. d / of_int ipr) ?ds"
  note multi = benchmark_loops_multi [OF assms(2) loops]
  have ne: "?ds \<noteq> []" using assms(2) by (simp add: repeat_durations_def)
  have doc: "fs' path = Some ?doc" using fs' by simp
  have timings: "subscript ?doc ''timings'' = Inr (JObj timing_data)"
    by (rule subscript_timings [OF no_timings])
  have meter: "reads m = 2 + 2 * nat nbr" "calls m = 1 + nat nbr * nat ipr"
    using multi(1) by simp_all
  have loop_times: "subscript (JObj timing_data) ''loop_times''
                      = Inr (JArr (map (\<lambda>d. JNum (Fin d)) ?ds))"
    by (subst multi(2)) (simp add: comp_def)
  have stats: "subscript (JObj timing_data) ''per_iter_times''
                 = Inr (JArr (map (\<lambda>s. JNum (Fin s)) ?samples))
             \<and> subscript (JObj timing_data) ''mean_per_iter_time''
                 = Inr (JNum (Fin (arithmetic_mean ?samples)))
             \<and> subscript (JObj timing_data) ''std_per_iter_time''
                 = Inr (JNum (Fin (population_std ?samples)))" if nz: "ipr \<noteq> 0"
  proof -
    from ne have sne: "?samples \<noteq> []" by simp
    show ?thesis
      unfolding multi(2) per_iter_samples_Fin [OF nz] np_mean_Fin [OF sne] np_std_Fin [OF sne]
      by (simp add: comp_def)
  qed
  from doc timings meter loop_times stats show ?thesis
    unfolding Let_def by blast
qed

lemma upt_0_3: "[0..<3] = [0, 1, 2]"
  by code_simp

lemmas run_eval = upt_0_3
  run_numbacs_predefined_ftle_def run_numbacs_data_ftle_def run_dynlab_ftle_def
  numbacs_predefined_req_keys_def numbacs_data_req_keys_def dynlab_req_keys_def
  dg_ftle_flow_data_def dg_flow_data_without_domain_def numbacs_dg_metadata_def
  session_metadata_def dg_ftle_def steady_world_def
  warmup_benchmark_write_def warmup_def timed_warmup_eq benchmark_loops_def timed_loop_eq
  outer_runs_eq write_json_def np_mean_def np_std_def np_sum_def fl_sub_def Let_def

lemma steady_dg_three_runs:
  "run_numbacs_predefined_ftle steady_world dg_ftle_flow_data
     ''results/numbacs_dg_ftle_results.json'' 50 3 (JObj []) numbacs_dg_metadata Map.empty
   = Inr ([''results/numbacs_dg_ftle_results.json'' \<mapsto> steady_three_runs_document],
          \<lparr>reads = 8, calls = 151\<rparr>)"
  by (simp add: run_eval steady_three_runs_document_def)

text \<open>
  Claim C1. A run configuration with iterates-per-run below 1 or runs-per-benchmark below 1
  fails validation, and no result document is produced. The runner functions check
  \<^verbatim>\<open>num_benchmark_runs\<close> (lemma \<open>num_benchmark_runs_validated\<close>) but never
  \<^verbatim>\<open>iterates_per_run\<close>, although both docstrings say "should be at least 1": with no
  iterates and three runs the NumbaCS function times three empty loops, divides by zero the
  numpy way and saves a result document whose per-iterate statistics are infinite or NaN.
\<close>

theorem zero_iterates_result_written:
  "run_numbacs_predefined_ftle steady_world dg_ftle_flow_data
     ''results/numbacs_dg_ftle_results.json'' 0 3 (JObj []) numbacs_dg_metadata Map.empty
   = Inr ([''results/numbacs_dg_ftle_results.json'' \<mapsto> steady_zero_iterates_document],
          \<lparr>reads = 8, calls = 1\<rparr>)"
  by (simp add: run_eval steady_zero_iterates_document_def)

text \<open>
  Claim C2, as stated: a "predefined" configuration must contain the domain key. The NumbaCS
  function for predefined flows does not ask for it (it takes the domain from the provider):
  the double-gyre flow data without \<^verbatim>\<open>domain\<close> passes the validation and the result is
  written.
\<close>

theorem predefined_without_domain_accepted:
  "py_in ''domain'' dg_flow_data_without_domain = Inr False
   \<and> run_numbacs_predefined_ftle steady_world dg_flow_data_without_domain
       ''results/numbacs_dg_ftle_results.json'' 50 3 (JObj []) numbacs_dg_metadata Map.empty
     = Inr ([''results/numbacs_dg_ftle_results.json'' \<mapsto> steady_three_runs_document],
            \<lparr>reads = 8, calls = 151\<rparr>)"
  by (simp add: run_eval steady_three_runs_document_def)

text \<open>Claim C4 at the NumbaCS double-gyre cell in the steady world.\<close>

theorem multi_run_statistics_witness:
  "run_numbacs_predefined_ftle \<in> runner_functions \<and> (1::int) < 3
   \<and> run_numbacs_predefined_ftle steady_world dg_ftle_flow_data
       ''results/numbacs_dg_ftle_results.json'' 50 3 (JObj []) numbacs_dg_metadata Map.empty
     = Inr ([''results/numbacs_dg_ftle_results.json'' \<mapsto> steady_three_runs_document],
            \<lparr>reads = 8, calls = 151\<rparr>)
   \<and> (\<exists>timings.
         subscript steady_three_runs_document ''timings'' = Inr timings
       \<and> subscript timings ''loop_times''
           = Inr (JArr (map (\<lambda>d. JNum (Fin d)) (repeat_durations steady_world 3)))
       \<and> subscript timings ''per_iter_times''
           = Inr (JArr (map (\<lambda>s. JNum (Fin s))
                         (map (\<lambda>d. d / 50) (repeat_durations steady_world 3))))
       \<and> subscript timings ''mean_per_iter_time''
           = Inr (JNum (Fin (arithmetic_mean
                               (map (\<lambda>d. d / 50) (repeat_durations steady_world 3)))))
       \<and> subscript timings ''std_per_iter_time''
           = Inr (JNum (Fin (population_std
                               (map (\<lambda>d. d / 50) (repeat_durations steady_world 3))))))"
proof -
  have member: "run_numbacs_predefined_ftle \<in> runner_functions"
    by (simp add: runner_functions_def)
  have more: "(1::int) < 3" by simp
  from multi_run_statistics [OF member more steady_dg_three_runs]
  have "\<exists>timings.
         subscript steady_three_runs_document ''timings'' = Inr timings
       \<and> subscript timings ''loop_times''
           = Inr (JArr (map (\<lambda>d. JNum (Fin d)) (repeat_durations steady_world 3)))
       \<and> subscript timings ''per_iter_times''
           = Inr (JArr (map (\<lambda>s. JNum (Fin s))
                         (map (\<lambda>d. d / 50) (repeat_durations steady_world 3))))
       \<and> subscript timings ''mean_per_iter_time''
           = Inr (JNum (Fin (arithmetic_mean
                               (map (\<lambda>d. d / 50) (repeat_durations steady_world 3)))))
       \<and> subscript timings ''std_per_iter_time''
           = Inr (JNum (Fin (population_std
                               (map (\<lambda>d. d / 50) (repeat_durations steady_world 3)))))"
    by (auto simp: Let_def)
  with member more steady_dg_three_runs show ?thesis by blast
qed

text \<open>
  Claim C2, amended. The required keys depend on the runner function: NumbaCS with a predefined
  flow requires the flow identifier, grid shape, start time, horizon and step (not the domain);
  NumbaCS with a data flow requires the flow identifier, velocity-data paths, domain, start
  time, horizon and step; Dynlab requires the flow identifier, domain, grid shape, start time,
  horizon and step. Flow data lacking one of the function's required keys fails, before
  anything else happens, with the error that names the function's required keys.
\<close>

theorem missing_required_keys_rejected:
  assumes "dict_keys flow_data = Inr keys"
  shows "(\<not> {''flow_str'', ''grid_shape'', ''t0'', ''T'', ''dt0''} \<subseteq> keys \<longrightarrow>
            run_numbacs_predefined_ftle w flow_data path ipr nbr error_data metadata fs
              = Inl (RequiredKeys {''flow_str'', ''grid_shape'', ''t0'', ''T'', ''dt0''}))
       \<and> (\<not> {''flow_str'', ''vel_data_paths'', ''domain'', ''t0'', ''T'', ''dt0''} \<subseteq> keys \<longrightarrow>
            run_numbacs_data_ftle w flow_data path ipr nbr error_data metadata fs
              = Inl (RequiredKeys
                       {''flow_str'', ''vel_data_paths'', ''domain'', ''t0'', ''T'', ''dt0''}))
       \<and> (\<not> {''flow_str'', ''domain'', ''grid_shape'', ''t0'', ''T'', ''dt0''} \<subseteq> keys \<longrightarrow>
            run_dynlab_ftle w flow_data path ipr nbr error_data metadata fs
              = Inl (RequiredKeys
                       {''flow_str'', ''domain'', ''grid_shape'', ''t0'', ''T'', ''dt0''}))"
  using assms
  by (simp add: run_numbacs_predefined_ftle_def run_numbacs_data_ftle_def run_dynlab_ftle_def
      numbacs_predefined_req_keys_def numbacs_data_req_keys_def dynlab_req_keys_def)

text \<open>Claim C2, amended, at the double-gyre flow data handed to the data-flow function.\<close>

theorem missing_required_keys_rejected_witness:
  "dict_keys dg_ftle_flow_data
     = Inr {''flow_str'', ''grid_shape'', ''domain'', ''t0'', ''T'', ''dt0''}
   \<and> \<not> {''flow_str'', ''vel_data_paths'', ''domain'', ''t0'', ''T'', ''dt0''}
         \<subseteq> {''flow_str'', ''grid_shape'', ''domain'', ''t0'', ''T'', ''dt0''}
   \<and> run_numbacs_data_ftle steady_world dg_ftle_flow_data
        ''results/numbacs_dg_ftle_results.json'' 50 3 (JObj []) numbacs_dg_metadata Map.empty
      = Inl (RequiredKeys
               {''flow_str'', ''vel_data_paths'', ''domain'', ''t0'', ''T'', ''dt0''})"
proof -
  have keys: "dict_keys dg_ftle_flow_data
                = Inr {''flow_str'', ''grid_shape'', ''domain'', ''t0'', ''T'', ''dt0''}"
    by (simp add: dg_ftle_flow_data_def)
  have absent: "''vel_data_paths''
                  \<notin> {''flow_str'', ''grid_shape'', ''domain'', ''t0'', ''T'', ''dt0''}"
    by simp
  have missing: "\<not> {''flow_str'', ''vel_data_paths'', ''domain'', ''t0'', ''T'', ''dt0''}
                    \<subseteq> {''flow_str'', ''grid_shape'', ''domain'', ''t0'', ''T'', ''dt0''}"
    using absent by (simp only: insert_subset simp_thms)
  note rejected =
    missing_required_keys_rejected [OF keys, THEN conjunct2, THEN conjunct1, THEN mp, OF missing]
  show ?thesis
    by (rule conjI [OF keys conjI [OF missing rejected]])
qed

text \<open>
  The command-line runner of NumbaCS checks the velocity-data paths of a data flow itself,
  before it calls the runner function, and its message names that key only.
\<close>

lemma numbacs_runner_checks_paths_first:
  assumes "subscript run_config ''output_json_path'' = Inr path"
    and "subscript run_config ''flow_data'' = Inr (JObj kv)"
    and "subscript run_config ''iterates_per_run'' = Inr ipr"
    and "subscript run_config ''num_benchmark_runs'' = Inr nbr"
    and "subscript run_config ''metadata'' = Inr md"
    and "subscript md ''case_flow_type'' = Inr (JStr ''data'')"
    and "''vel_data_paths'' \<notin> set (map fst kv)"
  shows "numbacs_dispatch w c run_config fs
           = Inl (ValueError ''NumbaCS data flow type expects vel_data_paths in flow_data.'')"
proof -
  from assms(1) obtain items where "run_config = JObj items" by (cases run_config) simp_all
  then have "\<exists>ed. dict_get run_config ''error_data'' (JObj []) = Inr ed"
    and "\<exists>m. dict_get run_config ''metadata'' (JObj []) = Inr m"
    by (auto split: option.splits)
  with assms show ?thesis
    by (auto simp: numbacs_dispatch_def)
qed

section \<open>Properties of the report tables\<close>

lemma speedup_column_baseline:
  "speedup_column py grp =
     (case baseline_time grp of
        None \<Rightarrow> map (\<lambda>r. NaN) grp
      | Some b \<Rightarrow> if fl_less (Fin 0) b then map (\<lambda>r. true_divide py b (mean_iter_s r)) grp
                  else map (\<lambda>r. NaN) grp)"
proof -
  have "find P xs = (case filter P xs of [] \<Rightarrow> None | x # rest \<Rightarrow> Some x)"
    for P and xs :: "aggregated_record list"
    by (induction xs) simp_all
  then show ?thesis
    unfolding speedup_column_def baseline_time_def
    by (simp add: Let_def split: list.splits)
qed

lemma speedup_col_fmt_NaN: "speedup_col_fmt py NaN = ascii ''N/A''"
  by (simp add: speedup_col_fmt_def notnull_def)

lemma format_cells_unchanged:
  "valtype \<noteq> FloatType \<Longrightarrow> format_cells py valtype cells = Inr cells"
  by (induction cells) (simp_all add: format_cell_def)

lemma more_generic_StrType: "more_generic t StrType = StrType"
  by (cases t) simp_all

lemma column_type_all_str:
  assumes "\<forall>cell \<in> set cells. type_of_cell py cell = StrType"
  shows "column_type py cells \<noteq> FloatType"
proof -
  have "foldl more_generic t (map (type_of_cell py) cells) \<noteq> FloatType"
    if "t \<noteq> FloatType" for t
    using assms that
    by (induction cells arbitrary: t) (simp_all add: more_generic_StrType)
  then show ?thesis by (simp add: column_type_def)
qed

text \<open>
  The part of the speedup rendering that does not depend on how floats are printed: in a case
  group without a baseline record, or with a baseline mean that is not positive, every cell of
  the speedup column is "N/A", in the column handed to \<^verbatim>\<open>to_markdown\<close> and, the text
  "N/A" reading neither as an integer nor as a number, in the table.
\<close>

lemma speedup_without_baseline:
  assumes "baseline_time grp = None \<or> (\<exists>b. baseline_time grp = Some b \<and> \<not> fl_less (Fin 0) b)"
  shows "formatted_speedup_column py grp = map (\<lambda>r. ascii ''N/A'') grp"
  using assms
  by (auto simp: formatted_speedup_column_def speedup_column_baseline speedup_col_fmt_NaN)

lemma speedup_cells_without_baseline:
  assumes "baseline_time grp = None \<or> (\<exists>b. baseline_time grp = Some b \<and> \<not> fl_less (Fin 0) b)"
    and "\<not> isint_text py (ascii ''N/A'')" and "\<not> isnumber_text py (ascii ''N/A'')"
  shows "speedup_cells py grp = Inr (map (\<lambda>r. ascii ''N/A'') grp)"
proof -
  have "type_of_cell py (ascii ''N/A'') = StrType"
    using assms(2,3) by (simp add: type_of_cell_def ascii_def)
  then have "column_type py (map (\<lambda>r. ascii ''N/A'') grp) \<noteq> FloatType"
    by (intro column_type_all_str) simp
  then show ?thesis
    by (simp add: speedup_cells_def markdown_column_def speedup_without_baseline [OF assms(1)]
        format_cells_unchanged)
qed

text \<open>
  A candidate mean of 0 with a baseline mean of one second: the ratio is the division
  1.0 / 0.0 of numpy, which is infinite; infinity is not null and is at least 1.0, so the
  formatter returns its two-decimal format, "inf", and the table shows "inf".
\<close>

lemma zero_candidate_mean_rendered_inf:
  assumes "true_divide py (Fin 1) (Fin 1) = Fin 1"
    and "true_divide py (Fin 1) (Fin 0) = PosInf"
    and "format_2f py (Fin 1) = ascii ''1.00''"
    and "format_2f py PosInf = ascii ''inf''"
    and "\<not> isint_text py (ascii ''1.00'')" and "\<not> isint_text py (ascii ''inf'')"
    and "isnumber_text py (ascii ''1.00'')" and "isnumber_text py (ascii ''inf'')"
    and "float_of_text py (ascii ''1.00'') = Some (Fin 1)"
    and "float_of_text py (ascii ''inf'') = Some PosInf"
    and "format_g py (Fin 1) = ascii ''1''"
    and "format_g py PosInf = ascii ''inf''"
  shows "formatted_speedup_column py [baseline_one_second, candidate_zero_seconds]
           = [ascii ''1.00'', ascii ''inf'']"
    and "speedup_cells py [baseline_one_second, candidate_zero_seconds]
           = Inr [ascii ''1'', ascii ''inf'']"
proof -
  show formatted: "formatted_speedup_column py [baseline_one_second, candidate_zero_seconds]
                     = [ascii ''1.00'', ascii ''inf'']"
    using assms(1-4)
    by (simp add: formatted_speedup_column_def speedup_column_def speedup_col_fmt_def
        notnull_def SPEEDUP_BASELINE_PACKAGE_def baseline_one_second_def
        candidate_zero_seconds_def)
  have types: "type_of_cell py (ascii ''1.00'') = FloatType"
    "type_of_cell py (ascii ''inf'') = FloatType"
    using assms(5-8) by (simp_all add: type_of_cell_def ascii_def)
  show "speedup_cells py [baseline_one_second, candidate_zero_seconds]
          = Inr [ascii ''1'', ascii ''inf'']"
    using assms(9-12)
    by (simp add: speedup_cells_def markdown_column_def formatted column_type_def types
        format_cell_def)
qed

text \<open>
  Claim C5. In every case group the speedup cell is the baseline mean divided by the
  candidate mean, rendered with two decimals when the ratio is at least 1.0. The code formats
  the ratio with two decimals and then loses them: the formatted column goes through
  \<^verbatim>\<open>to_markdown\<close>, which prints a column anew when all its cells read as numbers. At the
  double-gyre group of a baseline record with a mean of 1.0 s and a candidate record with a
  mean of 0.5 s, Python gives 1.0 / 1.0 = 1.0 and 1.0 / 0.5 = 2.0, formats them \<^verbatim>\<open>.2f\<close> as
  "1.00" and "2.00", reads both texts as numbers and not as integers, converts them to 1.0 and
  2.0 and formats these \<^verbatim>\<open>g\<close> as "1" and "2". With these values, the formatter of the
  speedup column returns "1.00" and "2.00", and the cells of the table are "1" and "2": the
  speedup of the candidate is shown as "2", not as "2.00".
\<close>

theorem speedup_two_decimals_lost_in_table:
  assumes "true_divide py (Fin 1) (Fin 1) = Fin 1"
    and "true_divide py (Fin 1) (Fin (1/2)) = Fin 2"
    and "format_2f py (Fin 1) = ascii ''1.00''"
    and "format_2f py (Fin 2) = ascii ''2.00''"
    and "\<not> isint_text py (ascii ''1.00'')" and "\<not> isint_text py (ascii ''2.00'')"
    and "isnumber_text py (ascii ''1.00'')" and "isnumber_text py (ascii ''2.00'')"
    and "float_of_text py (ascii ''1.00'') = Some (Fin 1)"
    and "float_of_text py (ascii ''2.00'') = Some (Fin 2)"
    and "format_g py (Fin 1) = ascii ''1''"
    and "format_g py (Fin 2) = ascii ''2''"
  shows "formatted_speedup_column py [baseline_one_second, candidate_half_second]
           = [ascii ''1.00'', ascii ''2.00'']
       \<and> speedup_cells py [baseline_one_second, candidate_half_second]
           = Inr [ascii ''1'', ascii ''2'']"
proof -
  have formatted: "formatted_speedup_column py [baseline_one_second, candidate_half_second]
                     = [ascii ''1.00'', ascii ''2.00'']"
    using assms(1-4)
    by (simp add: formatted_speedup_column_def speedup_column_def speedup_col_fmt_def
        notnull_def SPEEDUP_BASELINE_PACKAGE_def baseline_one_second_def
        candidate_half_second_def)
  have types: "type_of_cell py (ascii ''1.00'') = FloatType"
    "type_of_cell py (ascii ''2.00'') = FloatType"
    using assms(5-8) by (simp_all add: type_of_cell_def ascii_def)
  have "speedup_cells py [baseline_one_second, candidate_half_second]
          = Inr [ascii ''1'', ascii ''2'']"
    using assms(9-12)
    by (simp add: speedup_cells_def markdown_column_def formatted column_type_def types
        format_cell_def)
  with formatted show ?thesis by (rule conjI)
qed

text \<open>
  Claim C5 at that group, with the operations of Python tabulated on the values that occur.
\<close>

theorem speedup_two_decimals_lost_in_table_witness:
  "true_divide python_on_sample (Fin 1) (Fin 1) = Fin 1
   \<and> true_divide python_on_sample (Fin 1) (Fin (1/2)) = Fin 2
   \<and> format_2f python_on_sample (Fin 1) = ascii ''1.00''
   \<and> format_2f python_on_sample (Fin 2) = ascii ''2.00''
   \<and> \<not> isint_text python_on_sample (ascii ''1.00'')
   \<and> \<not> isint_text python_on_sample (ascii ''2.00'')
   \<and> isnumber_text python_on_sample (ascii ''1.00'')
   \<and> isnumber_text python_on_sample (ascii ''2.00'')
   \<and> float_of_text python_on_sample (ascii ''1.00'') = Some (Fin 1)
   \<and> float_of_text python_on_sample (ascii ''2.00'') = Some (Fin 2)
   \<and> format_g python_on_sample (Fin 1) = ascii ''1''
   \<and> format_g python_on_sample (Fin 2) = ascii ''2''
   \<and> formatted_speedup_column python_on_sample [baseline_one_second, candidate_half_second]
       = [ascii ''1.00'', ascii ''2.00'']
   \<and> speedup_cells python_on_sample [baseline_one_second, candidate_half_second]
       = Inr [ascii ''1'', ascii ''2'']"
proof -
  have facts: "true_divide python_on_sample (Fin 1) (Fin 1) = Fin 1"
    "true_divide python_on_sample (Fin 1) (Fin (1/2)) = Fin 2"
    "format_2f python_on_sample (Fin 1) = ascii ''1.00''"
    "format_2f python_on_sample (Fin 2) = ascii ''2.00''"
    "\<not> isint_text python_on_sample (ascii ''1.00'')"
    "\<not> isint_text python_on_sample (ascii ''2.00'')"
    "isnumber_text python_on_sample (ascii ''1.00'')"
    "isnumber_text python_on_sample (ascii ''2.00'')"
    "float_of_text python_on_sample (ascii ''1.00'') = Some (Fin 1)"
    "float_of_text python_on_sample (ascii ''2.00'') = Some (Fin 2)"
    "format_g python_on_sample (Fin 1) = ascii ''1''"
    "format_g python_on_sample (Fin 2) = ascii ''2''"
    by (simp_all add: python_on_sample_def ascii_def)
  note shown = speedup_two_decimals_lost_in_table [of python_on_sample, OF facts]
  from facts shown show ?thesis by (simp only: simp_thms)
qed

text \<open>
  Claim C6, as stated: the std-per-iterate column is present if and only if at least one
  record of the group has a std value. A group of one single-run record has a std value (the
  constant 0.0 of a single run) and no std column: the source also requires the group's first
  record to have more than one run.
\<close>

theorem single_run_group_has_no_std_column:
  "case_groups [single_run_record] = [(''dg_ftle'', [single_run_record])]
   \<and> notnull (std_iter_s single_run_record)
   \<and> ''Std /Iter (s)'' \<notin> set (table_columns [single_run_record])"
  by (simp add: case_groups_def single_run_record_def notnull_def speedup_col_name_def
      SPEEDUP_BASELINE_PACKAGE_def)

lemma case_groups_member:
  assumes "(cid, grp) \<in> set (case_groups df)"
  shows "grp = filter (\<lambda>r. case_id r = cid) df" and "grp \<noteq> []"
proof -
  from assms have cid: "cid \<in> set (map case_id df)"
    and grp: "grp = filter (\<lambda>r. case_id r = cid) df"
    by (auto simp: case_groups_def)
  from grp show "grp = filter (\<lambda>r. case_id r = cid) df" .
  from cid obtain r where "r \<in> set df" "case_id r = cid" by auto
  then have "r \<in> set (filter (\<lambda>r. case_id r = cid) df)" by simp
  then have "filter (\<lambda>r. case_id r = cid) df \<noteq> []" by (metis empty_iff empty_set)
  with grp show "grp \<noteq> []" by simp
qed

text \<open>
  Claim C6, amended. For every case group of a report, the std-per-iterate column is present
  if and only if the first record of the group has more than one benchmark run and at least one
  record of the group has a std value. The decision is taken per group.
\<close>

theorem std_column_presence:
  assumes "(cid, grp) \<in> set (case_groups df)"
  shows "''Std /Iter (s)'' \<in> set (table_columns grp)
           \<longleftrightarrow> 1 < num_benchmark_runs (hd grp) \<and> (\<exists>r\<in>set grp. std_iter_s r \<noteq> NaN)"
proof -
  from case_groups_member(2) [OF assms] obtain first rest where grp: "grp = first # rest"
    by (cases grp) auto
  have name: "speedup_col_name \<noteq> ''Std /Iter (s)''"
    by (simp add: speedup_col_name_def SPEEDUP_BASELINE_PACKAGE_def)
  have any: "filter (\<lambda>r. notnull (std_iter_s r)) (first # rest) \<noteq> []
               \<longleftrightarrow> (\<exists>r\<in>set (first # rest). std_iter_s r \<noteq> NaN)"
    unfolding filter_empty_conv notnull_def by blast
  show ?thesis
    unfolding grp table_columns.simps Let_def any [symmetric] using name
    by (simp del: filter.simps)
qed

text \<open>
  Claim C6, amended, at the double-gyre group of two three-run records.
\<close>

theorem std_column_presence_witness:
  "(''dg_ftle'', [baseline_one_second, candidate_half_second])
     \<in> set (case_groups [baseline_one_second, candidate_half_second])
   \<and> ''Std /Iter (s)'' \<in> set (table_columns [baseline_one_second, candidate_half_second])
   \<and> 1 < num_benchmark_runs (hd [baseline_one_second, candidate_half_second])
   \<and> std_iter_s baseline_one_second \<noteq> NaN"
proof -
  have member: "(''dg_ftle'', [baseline_one_second, candidate_half_second])
                  \<in> set (case_groups [baseline_one_second, candidate_half_second])"
    by (simp add: case_groups_def baseline_one_second_def candidate_half_second_def)
  have runs: "1 < num_benchmark_runs (hd [baseline_one_second, candidate_half_second])"
    by (simp add: baseline_one_second_def)
  have std: "std_iter_s baseline_one_second \<noteq> NaN"
    by (simp add: baseline_one_second_def)
  then have some: "\<exists>r\<in>set [baseline_one_second, candidate_half_second]. std_iter_s r \<noteq> NaN"
    by simp
  from std_column_presence [OF member] runs some
  have "''Std /Iter (s)'' \<in> set (table_columns [baseline_one_second, candidate_half_second])"
    by (simp only: simp_thms)
  with member runs std show ?thesis by (simp only: simp_thms)
qed

section \<open>Properties of the dispatcher and the external-interpreter runner\<close>

lemma timeout_seconds_finite:
  "timeout_seconds (Fin e) (Fin i) (Fin n) = Fin (e * i * n + 300)"
  by (simp add: timeout_seconds_def)

lemma run_matlab_benchmark_ignores_flag:
  "matlab_main env (args\<lparr>expected_iter_time := supplied\<rparr>) fs = matlab_main env args fs"
  by (simp add: matlab_main_def Let_def)

text \<open>
  Claim C9. For every command-line invocation of the external-interpreter runner that reaches
  the MATLAB process with integer counts in its configuration file, the timeout handed to the
  process is 200 times iterates-per-run times runs-per-benchmark plus 300 seconds, the counts
  being read from the configuration file; and whatever value \<^verbatim>\<open>--expected_iter_time\<close>
  carries, the invocation does the same: the flag is parsed and not passed on.
\<close>

theorem timeout_from_config_counts:
  assumes "script_isfile env (matlab_script args)"
    and "fs (run_config_json_path args) = Some cfg"
    and "subscript cfg ''iterates_per_run'' = Inr (JInt i)"
    and "subscript cfg ''num_benchmark_runs'' = Inr (JInt n)"
  shows "(\<exists>cmd. launched (snd (matlab_main env args fs))
                  = Some (cmd, Fin (200 * of_int i * of_int n + 300)))
       \<and> matlab_main env (args\<lparr>expected_iter_time := supplied\<rparr>) fs = matlab_main env args fs"
proof
  show "\<exists>cmd. launched (snd (matlab_main env args fs))
                 = Some (cmd, Fin (200 * of_int i * of_int n + 300))"
    using assms
    by (simp add: matlab_main_def run_matlab_benchmark_def Let_def default_expected_iter_time_def
        timeout_seconds_finite split: prod.splits)
  show "matlab_main env (args\<lparr>expected_iter_time := supplied\<rparr>) fs = matlab_main env args fs"
    by (simp add: matlab_main_def Let_def)
qed

lemma dict_set_same: "map_of (dict_set kv k v) k = Some v"
  by (induction kv k v rule: dict_set.induct) simp_all

lemma dict_set_other: "k' \<noteq> k \<Longrightarrow> map_of (dict_set kv k v) k' = map_of kv k'"
  by (induction kv k v rule: dict_set.induct) simp_all

lemma final_run_config_flow_params:
  assumes "k \<noteq> ''output_json_path''" and "k \<noteq> ''metadata''"
  shows "subscript (final_run_config rd pkg cid cc) k = subscript (JObj (flow_params cc)) k"
  using assms by (simp add: final_run_config_def dict_set_other)

text \<open>
  Claim C9 at the double-gyre cell (50 iterates, 3 runs) with the flag set to 5: the timeout is
  30300 seconds.
\<close>

theorem timeout_from_config_counts_witness:
  "script_isfile timing_out_matlab (matlab_script lcstool_dg_args)
   \<and> lcstool_dg_files (run_config_json_path lcstool_dg_args)
       = Some (final_run_config ''/repo/results'' ''LCStool'' ''dg_ftle'' dg_ftle)
   \<and> subscript (final_run_config ''/repo/results'' ''LCStool'' ''dg_ftle'' dg_ftle)
        ''iterates_per_run'' = Inr (JInt 50)
   \<and> subscript (final_run_config ''/repo/results'' ''LCStool'' ''dg_ftle'' dg_ftle)
        ''num_benchmark_runs'' = Inr (JInt 3)
   \<and> (\<exists>cmd. launched (snd (matlab_main timing_out_matlab lcstool_dg_args lcstool_dg_files))
               = Some (cmd, Fin 30300))
   \<and> matlab_main timing_out_matlab (lcstool_dg_args\<lparr>expected_iter_time := JInt 200\<rparr>)
        lcstool_dg_files
       = matlab_main timing_out_matlab lcstool_dg_args lcstool_dg_files"
proof -
  have script: "script_isfile timing_out_matlab (matlab_script lcstool_dg_args)"
    by (simp add: timing_out_matlab_def)
  have stored: "lcstool_dg_files (run_config_json_path lcstool_dg_args)
                = Some (final_run_config ''/repo/results'' ''LCStool'' ''dg_ftle'' dg_ftle)"
    by (simp add: lcstool_dg_files_def lcstool_dg_args_def)
  have iterates: "subscript (final_run_config ''/repo/results'' ''LCStool'' ''dg_ftle'' dg_ftle)
                    ''iterates_per_run'' = Inr (JInt 50)"
    by (simp add: final_run_config_flow_params dg_ftle_def)
  have runs: "subscript (final_run_config ''/repo/results'' ''LCStool'' ''dg_ftle'' dg_ftle)
                ''num_benchmark_runs'' = Inr (JInt 3)"
    by (simp add: final_run_config_flow_params dg_ftle_def)
  from timeout_from_config_counts
    [where env = timing_out_matlab and args = lcstool_dg_args and fs = lcstool_dg_files
       and supplied = "JInt 200", OF script stored iterates runs]
  have "(\<exists>cmd. launched (snd (matlab_main timing_out_matlab lcstool_dg_args lcstool_dg_files))
               = Some (cmd, Fin 30300))
      \<and> matlab_main timing_out_matlab (lcstool_dg_args\<lparr>expected_iter_time := JInt 200\<rparr>)
           lcstool_dg_files
          = matlab_main timing_out_matlab lcstool_dg_args lcstool_dg_files"
    by simp
  with script stored iterates runs show ?thesis by (simp only: simp_thms)
qed

text \<open>
  Once the temporary configuration has been written, it does not outlive the cell: whatever
  \<^verbatim>\<open>session.run\<close> did, returned (the runner exited with status 0), raised (any other exit
  status, which is how the runner reports a failed, missing or timed-out MATLAB), or changed the
  files, the file does not exist when the cell ends, provided \<^verbatim>\<open>os.remove\<close> does not fail.
  Cells that end before the file is created leave no file either.
\<close>

lemma external_interpreter_cell_removes:
  assumes "\<And>e. temp_fault env \<noteq> Some (WriteFails e)"
    and "remove_fault env = None"
    and "fs (temp_name env (''cfg_'' @ pkg_name @ ''_'' @ cid @ ''_'')) = None"
  shows "snd (external_interpreter_cell env pkg_name pkg_config cid cc final fs)
           (temp_name env (''cfg_'' @ pkg_name @ ''_'' @ cid @ ''_'')) = None"
  using assms
  by (auto simp: external_interpreter_cell_def Let_def
      split: sum.splits option.splits prod.splits temp_fault.splits)

lemma written_config_removed:
  assumes "lower pkg_name_type = ''lcstool''"
    and "\<And>e. temp_fault env \<noteq> Some (WriteFails e)"
    and "remove_fault env = None"
    and "fs (temp_name env (''cfg_lcstool_'' @ cid @ ''_'')) = None"
  shows "snd (benchmark_session env pkg_name_type pkg_config cid cc fs)
           (temp_name env (''cfg_lcstool_'' @ cid @ ''_'')) = None"
proof (cases "provision env")
  case (Some e)
  with assms(4) show ?thesis by (simp add: benchmark_session_def)
next
  case None
  have fresh: "fs (temp_name env (''cfg_'' @ ''lcstool'' @ ''_'' @ cid @ ''_'')) = None"
    using assms(4) by simp
  have "snd (external_interpreter_cell env ''lcstool'' pkg_config cid cc
               (final_run_config (results_dir env) pkg_name_type cid cc) fs)
          (temp_name env (''cfg_'' @ ''lcstool'' @ ''_'' @ cid @ ''_'')) = None"
    by (rule external_interpreter_cell_removes
        [where fs = fs and env = env and pkg_name = "''lcstool''" and cid = cid,
         OF assms(2) assms(3) fresh])
  with None assms(1) show ?thesis
    by (simp add: benchmark_session_def Let_def)
qed

text \<open>
  The double-gyre cell of LCStool with a MATLAB that runs into the timeout: the session raises
  and the temporary file is gone.
\<close>

lemma timed_out_cell:
  "benchmark_session lcstool_nox_env ''LCStool'' lcstool_config ''dg_ftle'' dg_ftle Map.empty
     = (Raised CommandFailed, Map.empty)"
  by (simp add: benchmark_session_def external_interpreter_cell_def lcstool_nox_env_def
      lcstool_config_def lower_def dg_ftle_def dg_ftle_flow_data_def final_run_config_def
      session_metadata_def path_join_def matlab_main_def run_matlab_benchmark_def
      timing_out_matlab_def Let_def)

text \<open>
  A failed removal leaves the file as well: the exception of \<^verbatim>\<open>os.remove\<close> leaves the
  \<^verbatim>\<open>finally\<close> clause with the file in place.
\<close>

lemma failed_removal_leaves_config:
  assumes "temp_fault env = None" and "remove_fault env = Some e"
    and "external_interpreter_cell env pkg_name pkg_config cid cc final fs = (outcome, fs')"
    and "fs' (temp_name env (''cfg_'' @ pkg_name @ ''_'' @ cid @ ''_'')) \<noteq> None"
    and "fs (temp_name env (''cfg_'' @ pkg_name @ ''_'' @ cid @ ''_'')) = None"
  shows "outcome = Raised e"
  using assms
  by (auto simp: external_interpreter_cell_def Let_def
      split: sum.splits option.splits prod.splits if_splits)

text \<open>
  Claim C8. The temporary configuration file of an external-interpreter cell is removed on
  every exit path of the cell. The code misses one exit path: the file is created and written
  before the \<^verbatim>\<open>try\<close> statement whose \<^verbatim>\<open>finally\<close> clause removes it. At the double-gyre
  cell of LCStool, with \<^verbatim>\<open>LCSTOOL_PATH\<close> set and a results directory without files, on a
  disk that fills up while \<^verbatim>\<open>json.dump\<close> writes the temporary configuration, the session
  ends with that exception, the runner is never started, and the temporary file
  \<^verbatim>\<open>/repo/results/cfg_lcstool_dg_ftle_k3x9.json\<close> exists when the cell has ended.
\<close>

theorem temporary_config_left_after_failed_write:
  "fst (benchmark_session full_disk_nox_env ''LCStool'' lcstool_config ''dg_ftle'' dg_ftle
          Map.empty) = Raised (IOError ''No space left on device'')
   \<and> temp_name full_disk_nox_env ''cfg_lcstool_dg_ftle_''
       = ''/repo/results/cfg_lcstool_dg_ftle_k3x9.json''
   \<and> snd (benchmark_session full_disk_nox_env ''LCStool'' lcstool_config ''dg_ftle'' dg_ftle
            Map.empty) ''/repo/results/cfg_lcstool_dg_ftle_k3x9.json'' \<noteq> None"
  by (simp add: benchmark_session_def external_interpreter_cell_def full_disk_nox_env_def
      lcstool_nox_env_def lcstool_config_def lower_def dg_ftle_def dg_ftle_flow_data_def
      final_run_config_def session_metadata_def path_join_def Let_def)

section \<open>Properties of error documents and the aggregator\<close>

lemma configured_cells:
  assumes "(session, pkg, pc, cid, cc)
             \<in> set (benchmark_matrix PACKAGES_CONFIG (BENCHMARK_CASES base_data_dir))"
  shows "(pkg = ''NumbaCS'' \<and> cid = ''dg_ftle'') \<or> (pkg = ''NumbaCS'' \<and> cid = ''qge_ftle'')
       \<or> (pkg = ''Dynlab'' \<and> cid = ''dg_ftle'')
       \<or> (pkg = ''LCStool'' \<and> cid = ''dg_ftle'') \<or> (pkg = ''LCStool'' \<and> cid = ''qge_ftle'')"
  using assms
  by (simp add: benchmark_matrix_def PACKAGES_CONFIG_def BENCHMARK_CASES_def
      numbacs_config_def dynlab_config_def lcstool_config_def) (elim disjE conjE; simp)

lemma configured_file_names:
  assumes "(pkg = ''NumbaCS'' \<and> cid = ''dg_ftle'') \<or> (pkg = ''NumbaCS'' \<and> cid = ''qge_ftle'')
       \<or> (pkg = ''Dynlab'' \<and> cid = ''dg_ftle'')
       \<or> (pkg = ''LCStool'' \<and> cid = ''dg_ftle'') \<or> (pkg = ''LCStool'' \<and> cid = ''qge_ftle'')"
  shows "glob_results (output_filename (lower pkg) cid)"
    and "\<not> contains ''_error'' (lower (output_filename (lower pkg) cid))"
    and "CHR ''/'' \<notin> set (output_filename (lower pkg) cid)"
  using assms
  by (elim disjE conjE; simp add: output_filename_def lower_def glob_results_def suffix_def)+

lemma basename_path_join:
  assumes "CHR ''/'' \<notin> set f"
  shows "basename (path_join rd f) = f"
proof -
  have no_slash: "takeWhile (\<lambda>c. c \<noteq> CHR ''/'') (rev f @ CHR ''/'' # rest) = rev f" for rest
    using assms by (auto simp: takeWhile_tail)
  have plain: "takeWhile (\<lambda>c. c \<noteq> CHR ''/'') (rev f) = rev f"
    using assms by (auto simp: takeWhile_eq_all_conv)
  have not_abs: "\<not> prefix ''/'' f"
    using assms by (cases f) auto
  show ?thesis
  proof (cases "rd = []")
    case True
    with not_abs show ?thesis by (simp add: path_join_def basename_def plain)
  next
    case False
    show ?thesis
    proof (cases "suffix ''/'' rd")
      case True
      then obtain front where "rd = front @ ''/''" by (auto simp: suffix_def)
      with not_abs show ?thesis by (simp add: path_join_def basename_def no_slash)
    next
      case no: False
      with False not_abs show ?thesis by (simp add: path_join_def basename_def no_slash)
    qed
  qed
qed

lemma final_run_config_output_path:
  "subscript (final_run_config rd pkg cid cc) ''output_json_path''
     = Inr (JStr (path_join rd (output_filename (lower pkg) cid)))"
  by (simp add: final_run_config_def dict_set_other dict_set_same)

lemma recovered_output_path:
  assumes "json_loads c raw = Some (final_run_config rd pkg cid cc)"
  shows "output_path_for_error c default_path raw
           = JStr (path_join rd (output_filename (lower pkg) cid))"
  using assms
  by (simp add: output_path_for_error_def final_run_config_def dict_set_other dict_set_same)

lemma path_join_nonempty: "f \<noteq> [] \<Longrightarrow> path_join rd f \<noteq> []"
  by (auto simp: path_join_def)

lemma error_document_written:
  assumes "json_loads c raw = Some (final_run_config rd pkg cid cc)"
    and "writable w (path_join rd (output_filename (lower pkg) cid))"
  shows "write_error_document w c label default_path e raw fs
           (path_join rd (output_filename (lower pkg) cid))
         = Some (error_document c label e raw)"
proof -
  have "output_filename (lower pkg) cid \<noteq> []" by (simp add: output_filename_def)
  then have "path_join rd (output_filename (lower pkg) cid) \<noteq> []"
    by (rule path_join_nonempty)
  with assms(2) show ?thesis
    by (simp add: write_error_document_def recovered_output_path [OF assms(1)])
qed

lemma error_document_has_no_metadata:
  "project_record b (error_document c label e raw) = Inl (KeyError ''metadata'')"
  by (simp add: project_record_def error_document_def)

lemma load_benchmark_data_append:
  "load_benchmark_data b (xs @ ys) = load_benchmark_data b xs @ load_benchmark_data b ys"
  by (induction b xs rule: load_benchmark_data.induct)
     (simp_all split: option.splits sum.splits)

text \<open>
  Claim C10. For a cell of the configured matrix whose runner received the dispatcher's
  configuration and failed: the error document is written to the path the configuration names
  for the result document; the file name of that path is the cell's
  \<^verbatim>\<open>{package}_{case}_results.json\<close>, which matches the aggregator's pattern and has no
  \<^verbatim>\<open>_error\<close> in it; the projection of the error document fails with the missing key
  \<^verbatim>\<open>metadata\<close>; and the aggregator, catching that, yields exactly the records of the files
  before and after it in the listing.
\<close>

theorem error_document_skipped_for_its_schema:
  assumes "(session, pkg, pc, cid, cc)
             \<in> set (benchmark_matrix PACKAGES_CONFIG (BENCHMARK_CASES base_data_dir))"
    and "json_loads c raw = Some (final_run_config rd pkg cid cc)"
    and "writable w (path_join rd (output_filename (lower pkg) cid))"
    and "numbacs_try w c raw fs = (Some e, fs')"
  shows "subscript (final_run_config rd pkg cid cc) ''output_json_path''
           = Inr (JStr (path_join rd (output_filename (lower pkg) cid)))
       \<and> snd (numbacs_main w c raw fs) (path_join rd (output_filename (lower pkg) cid))
           = Some (error_document c ''NumbaCS'' e raw)
       \<and> basename (path_join rd (output_filename (lower pkg) cid))
           = output_filename (lower pkg) cid
       \<and> glob_results (output_filename (lower pkg) cid)
       \<and> \<not> contains ''_error'' (lower (output_filename (lower pkg) cid))
       \<and> project_record b (error_document c ''NumbaCS'' e raw) = Inl (KeyError ''metadata'')
       \<and> load_benchmark_data b
            (before @ (output_filename (lower pkg) cid,
                       Some (error_document c ''NumbaCS'' e raw)) # after)
           = load_benchmark_data b before @ load_benchmark_data b after"
proof -
  note names = configured_file_names [OF configured_cells [OF assms(1)]]
  have written: "snd (numbacs_main w c raw fs) (path_join rd (output_filename (lower pkg) cid))
                   = Some (error_document c ''NumbaCS'' e raw)"
    using assms(4) by (simp add: numbacs_main_def error_document_written [OF assms(2,3)])
  have skipped: "load_benchmark_data b
            (before @ (output_filename (lower pkg) cid,
                       Some (error_document c ''NumbaCS'' e raw)) # after)
           = load_benchmark_data b before @ load_benchmark_data b after"
    using names(1,2)
    by (simp add: load_benchmark_data_append error_document_has_no_metadata)
  from final_run_config_output_path written basename_path_join [OF names(3)] names(1,2)
    error_document_has_no_metadata skipped
  show ?thesis by (intro conjI)
qed

lemma qge_cell_fails:
  "numbacs_try missing_data_world qge_cli [] Map.empty
     = (Some (IOError ''qge_u.npy''), Map.empty)"
  by (simp add: numbacs_try_def numbacs_dispatch_def qge_cli_def final_run_config_def
      session_metadata_def qge_ftle_def qge_ftle_flow_data_def run_numbacs_data_ftle_def
      numbacs_data_req_keys_def missing_data_world_def steady_world_def)

text \<open>
  Claim C10 at the NumbaCS cell of the QGE case when the velocity data cannot be loaded.
\<close>

theorem error_document_skipped_for_its_schema_witness:
  "(''bench-numbacs-qge_ftle'', ''NumbaCS'', numbacs_config, ''qge_ftle'', qge_ftle ''/repo/data'')
     \<in> set (benchmark_matrix PACKAGES_CONFIG (BENCHMARK_CASES ''/repo/data''))
   \<and> json_loads qge_cli []
       = Some (final_run_config ''/repo/results'' ''NumbaCS'' ''qge_ftle'' (qge_ftle ''/repo/data''))
   \<and> writable missing_data_world
        (path_join ''/repo/results'' (output_filename (lower ''NumbaCS'') ''qge_ftle''))
   \<and> numbacs_try missing_data_world qge_cli [] Map.empty
       = (Some (IOError ''qge_u.npy''), Map.empty)
   \<and> path_join ''/repo/results'' (output_filename (lower ''NumbaCS'') ''qge_ftle'')
       = ''/repo/results/numbacs_qge_ftle_results.json''
   \<and> snd (numbacs_main missing_data_world qge_cli [] Map.empty)
         (path_join ''/repo/results'' (output_filename (lower ''NumbaCS'') ''qge_ftle''))
       = Some (error_document qge_cli ''NumbaCS'' (IOError ''qge_u.npy'') [])
   \<and> load_benchmark_data no_parsing
         ([] @ (output_filename (lower ''NumbaCS'') ''qge_ftle'',
                Some (error_document qge_cli ''NumbaCS'' (IOError ''qge_u.npy'') [])) # [])
       = load_benchmark_data no_parsing [] @ load_benchmark_data no_parsing []"
proof -
  have cell: "(''bench-numbacs-qge_ftle'', ''NumbaCS'', numbacs_config, ''qge_ftle'',
               qge_ftle ''/repo/data'')
                \<in> set (benchmark_matrix PACKAGES_CONFIG (BENCHMARK_CASES ''/repo/data''))"
    by (simp add: benchmark_matrix_def PACKAGES_CONFIG_def BENCHMARK_CASES_def
        numbacs_config_def lower_def)
  have loads: "json_loads qge_cli []
       = Some (final_run_config ''/repo/results'' ''NumbaCS'' ''qge_ftle'' (qge_ftle ''/repo/data''))"
    by (simp add: qge_cli_def)
  have wr: "writable missing_data_world
        (path_join ''/repo/results'' (output_filename (lower ''NumbaCS'') ''qge_ftle''))"
    by (simp add: missing_data_world_def steady_world_def)
  have name: "path_join ''/repo/results'' (output_filename (lower ''NumbaCS'') ''qge_ftle'')
       = ''/repo/results/numbacs_qge_ftle_results.json''"
    by (simp add: path_join_def output_filename_def lower_def suffix_to_prefix)
  note all = error_document_skipped_for_its_schema
    [where w = missing_data_world and fs = Map.empty and b = no_parsing
       and before = "[]" and after = "[]", OF cell loads wr qge_cell_fails]
  note written = all [THEN conjunct2, THEN conjunct1]
  note skipped = all [THEN conjunct2, THEN conjunct2, THEN conjunct2, THEN conjunct2,
      THEN conjunct2, THEN conjunct2]
  show ?thesis
    by (rule conjI [OF cell conjI [OF loads conjI [OF wr conjI [OF qge_cell_fails
          conjI [OF name conjI [OF written skipped]]]]]])
qed

section \<open>Properties of the splice into the host document\<close>

subsection \<open>The markers\<close>

lemma start_marker_shape:
  "\<exists>rest. BENCHMARK_SECTION_START_PLACEHOLDER = 60 # rest"
  by (simp add: BENCHMARK_SECTION_START_PLACEHOLDER_def ascii_def)

lemma end_marker_shape:
  "\<exists>rest. BENCHMARK_SECTION_END_PLACEHOLDER = 60 # rest"
  "\<exists>front. BENCHMARK_SECTION_END_PLACEHOLDER = front @ [62]"
  "10 \<notin> set BENCHMARK_SECTION_END_PLACEHOLDER"
  by (simp_all add: BENCHMARK_SECTION_END_PLACEHOLDER_def ascii_def)

lemma not_space: "\<not> py_isspace 60" "\<not> py_isspace 62"
  by (simp_all add: py_isspace_def)

subsection \<open>Searching a marker\<close>

lemma find_marker_decomp:
  "find_marker mk t = Some (a, b) \<Longrightarrow> t = a @ mk @ b"
proof (induction t arbitrary: a)
  case Nil
  then show ?case by (simp split: if_splits)
next
  case (Cons c cs)
  show ?case
  proof (cases "prefix mk (c # cs)")
    case True
    with Cons.prems have "a = []" "b = drop (length mk) (c # cs)" by simp_all
    moreover from True obtain rest where "c # cs = mk @ rest" by (auto simp: prefix_def)
    ultimately show ?thesis by simp
  next
    case False
    with Cons.prems obtain a' where "find_marker mk cs = Some (a', b)" "a = c # a'"
      by auto
    with Cons.IH show ?thesis by simp
  qed
qed

lemma find_marker_exists:
  "mk \<noteq> [] \<Longrightarrow> find_marker mk (a @ mk @ b) \<noteq> None"
proof (induction a)
  case Nil
  then obtain m ms where "mk = m # ms" by (cases mk) auto
  then show ?case by simp
next
  case (Cons c a)
  then show ?case by auto
qed

lemma find_marker_at_marker:
  "mk \<noteq> [] \<Longrightarrow> find_marker mk (mk @ b) = Some ([], b)"
  by (cases mk) simp_all

lemma prefix_within:
  assumes "length mk \<le> length zs"
  shows "prefix mk (zs @ rest) \<longleftrightarrow> prefix mk zs"
  using assms by (auto simp: prefix_append)

subsection \<open>Searching the block\<close>

lemma search_block_Cons:
  "search_block (c # cs) =
     (if prefix BENCHMARK_SECTION_START_PLACEHOLDER (c # cs)
         \<and> find_marker BENCHMARK_SECTION_END_PLACEHOLDER
               (drop (length BENCHMARK_SECTION_START_PLACEHOLDER) (c # cs)) \<noteq> None
      then map_option (\<lambda>(mid, post). ([], mid, post))
             (find_marker BENCHMARK_SECTION_END_PLACEHOLDER
                (drop (length BENCHMARK_SECTION_START_PLACEHOLDER) (c # cs)))
      else map_option (\<lambda>(pre, mid, post). (c # pre, mid, post)) (search_block cs))"
  by (auto simp: Let_def split: option.splits)

lemma search_block_decomp:
  "search_block t = Some (pre, mid, post) \<Longrightarrow>
   t = pre @ BENCHMARK_SECTION_START_PLACEHOLDER @ mid @ BENCHMARK_SECTION_END_PLACEHOLDER @ post"
proof (induction t arbitrary: pre)
  case Nil
  then show ?case by simp
next
  case (Cons c cs)
  let ?S = BENCHMARK_SECTION_START_PLACEHOLDER and ?E = BENCHMARK_SECTION_END_PLACEHOLDER
  show ?case
  proof (cases "prefix ?S (c # cs) \<and> find_marker ?E (drop (length ?S) (c # cs)) \<noteq> None")
    case True
    with Cons.prems have found: "find_marker ?E (drop (length ?S) (c # cs)) = Some (mid, post)"
      and pre: "pre = []"
      unfolding search_block_Cons by auto
    from True obtain rest where rest: "c # cs = ?S @ rest" by (auto simp: prefix_def)
    with found have "rest = mid @ ?E @ post" by (simp add: find_marker_decomp)
    with rest pre show ?thesis by simp
  next
    case False
    with Cons.prems obtain pre' where "search_block cs = Some (pre', mid, post)" "pre = c # pre'"
      unfolding search_block_Cons by auto
    with Cons.IH show ?thesis by simp
  qed
qed

text \<open>
  The block found in a text is found again, at the same place, after the group between the
  markers and the text after the match are replaced and leading text is cut off, as long as
  the new group reaches to the first end marker.
\<close>

lemma search_block_replaced:
  assumes "search_block t = Some (pre, mid, post)"
    and "find_marker BENCHMARK_SECTION_END_PLACEHOLDER
           (new_mid @ BENCHMARK_SECTION_END_PLACEHOLDER @ post') = Some (new_mid, post')"
    and "suffix pre' pre"
  shows "search_block
           (pre' @ BENCHMARK_SECTION_START_PLACEHOLDER @ new_mid
              @ BENCHMARK_SECTION_END_PLACEHOLDER @ post') = Some (pre', new_mid, post')"
  using assms(1,3)
proof (induction t arbitrary: pre pre')
  case Nil
  then show ?case by simp
next
  case (Cons c cs)
  let ?S = BENCHMARK_SECTION_START_PLACEHOLDER and ?E = BENCHMARK_SECTION_END_PLACEHOLDER
  from start_marker_shape obtain srest where S: "?S = 60 # srest" by blast
  from end_marker_shape(1) have E_ne: "?E \<noteq> []" by auto
  have at_start: "search_block (?S @ new_mid @ ?E @ post') = Some ([], new_mid, post')"
  proof -
    have "search_block (60 # srest @ new_mid @ ?E @ post')
            = map_option (\<lambda>(mid, post). ([], mid, post))
                (find_marker ?E (drop (length ?S) (?S @ new_mid @ ?E @ post')))"
      unfolding search_block_Cons using assms(2) by (simp add: S)
    with assms(2) show ?thesis by (simp add: S)
  qed
  show ?case
  proof (cases "prefix ?S (c # cs) \<and> find_marker ?E (drop (length ?S) (c # cs)) \<noteq> None")
    case True
    with Cons.prems(1) have "pre = []"
      unfolding search_block_Cons by auto
    with Cons.prems(2) have "pre' = []" by simp
    with at_start show ?thesis by simp
  next
    case False
    with Cons.prems(1) obtain pre0 where sub: "search_block cs = Some (pre0, mid, post)"
      and pre: "pre = c # pre0"
      unfolding search_block_Cons by auto
    from Cons.prems(2) pre have "pre' = c # pre0 \<or> suffix pre' pre0"
      by (auto simp: suffix_Cons)
    then show ?thesis
    proof
      assume "suffix pre' pre0"
      with Cons.IH [OF sub] show ?thesis .
    next
      assume whole: "pre' = c # pre0"
      have rec: "search_block (pre0 @ ?S @ new_mid @ ?E @ post') = Some (pre0, new_mid, post')"
        by (rule Cons.IH [OF sub]) simp
      have cs: "cs = pre0 @ ?S @ mid @ ?E @ post"
        by (rule search_block_decomp [OF sub])
      have long: "length ?S \<le> length (c # pre0 @ ?S)" by simp
      have no_start: "\<not> prefix ?S (c # pre0 @ ?S)"
      proof
        assume here: "prefix ?S (c # pre0 @ ?S)"
        have "prefix ?S ((c # pre0 @ ?S) @ mid @ ?E @ post)"
          using here by (simp only: prefix_within [OF long])
        then have "prefix ?S (c # cs)" by (simp add: cs)
        moreover have "drop (length ?S) ((c # pre0 @ ?S) @ mid @ ?E @ post)
                         = drop (length ?S) (c # pre0 @ ?S) @ mid @ ?E @ post"
          using long by (simp only: drop_append) simp
        then have "drop (length ?S) (c # cs)
                     = (drop (length ?S) (c # pre0 @ ?S) @ mid) @ ?E @ post"
          by (simp add: cs)
        then have "find_marker ?E (drop (length ?S) (c # cs)) \<noteq> None"
          by (simp only: find_marker_exists [OF E_ne] not_False_eq_True)
        ultimately show False using False by simp
      qed
      have "\<not> prefix ?S ((c # pre0 @ ?S) @ new_mid @ ?E @ post')"
        using no_start by (simp only: prefix_within [OF long] not_False_eq_True)
      then have "\<not> prefix ?S (c # pre0 @ ?S @ new_mid @ ?E @ post')" by simp
      then have "search_block (c # pre0 @ ?S @ new_mid @ ?E @ post')
                   = map_option (\<lambda>(pre, mid, post). (c # pre, mid, post))
                       (search_block (pre0 @ ?S @ new_mid @ ?E @ post'))"
        unfolding search_block_Cons by simp
      with rec whole show ?thesis by simp
    qed
  qed
qed

subsection \<open>The new block ends at its own end marker\<close>

lemma contains_iff: "contains pat t \<longleftrightarrow> (\<exists>a b. t = a @ pat @ b)"
proof (induction t)
  case Nil
  show ?case by auto
next
  case (Cons c cs)
  show ?case
  proof
    assume "contains pat (c # cs)"
    then consider "prefix pat (c # cs)" | "contains pat cs" by auto
    then show "\<exists>a b. c # cs = a @ pat @ b"
    proof cases
      case 1
      then obtain b where "c # cs = pat @ b" by (auto simp: prefix_def)
      then have "c # cs = [] @ pat @ b" by simp
      then show ?thesis by blast
    next
      case 2
      with Cons.IH obtain a b where "cs = a @ pat @ b" by blast
      then have "c # cs = (c # a) @ pat @ b" by simp
      then show ?thesis by blast
    qed
  next
    assume "\<exists>a b. c # cs = a @ pat @ b"
    then obtain a b where ab: "c # cs = a @ pat @ b" by blast
    show "contains pat (c # cs)"
    proof (cases a)
      case Nil
      with ab have "prefix pat (c # cs)" by (simp add: prefix_def)
      then show ?thesis by simp
    next
      case (Cons a0 a')
      with ab have "cs = a' @ pat @ b" by simp
      with Cons.IH have "contains pat cs" by blast
      then show ?thesis by simp
    qed
  qed
qed

lemma strip_inside: "\<exists>a b. t = a @ strip t @ b"
proof -
  let ?d = "dropWhile py_isspace t"
  have whole: "t = takeWhile py_isspace t @ ?d" by simp
  have "rev (takeWhile py_isspace (rev ?d) @ dropWhile py_isspace (rev ?d)) = ?d"
    by (simp only: takeWhile_dropWhile_id rev_rev_ident)
  then have "strip t @ rev (takeWhile py_isspace (rev ?d)) = ?d"
    by (simp only: rev_append strip_def)
  with whole have "t = takeWhile py_isspace t @ strip t @ rev (takeWhile py_isspace (rev ?d))"
    by simp
  then show ?thesis by blast
qed

lemma strip_keeps_free:
  assumes "\<not> contains pat t"
  shows "\<not> contains pat (strip t)"
proof
  assume "contains pat (strip t)"
  then obtain a b where inner: "strip t = a @ pat @ b" by (auto simp: contains_iff)
  from strip_inside obtain a' b' where "t = a' @ strip t @ b'" by blast
  with inner have "t = (a' @ a) @ pat @ (b @ b')" by simp
  then have "contains pat t" unfolding contains_iff by blast
  with assms show False by simp
qed

lemma find_marker_skip_newline:
  "find_marker BENCHMARK_SECTION_END_PLACEHOLDER (10 # rest)
     = map_option (\<lambda>(a, b). (10 # a, b)) (find_marker BENCHMARK_SECTION_END_PLACEHOLDER rest)"
proof -
  from end_marker_shape(1) obtain erest where E: "BENCHMARK_SECTION_END_PLACEHOLDER = 60 # erest"
    by blast
  have "\<not> prefix (60 # erest) (10 # rest)" by simp
  then have "\<not> prefix BENCHMARK_SECTION_END_PLACEHOLDER (10 # rest)" unfolding E .
  then show ?thesis by simp
qed

lemma find_marker_skip_free:
  assumes "\<not> contains BENCHMARK_SECTION_END_PLACEHOLDER body"
  shows "find_marker BENCHMARK_SECTION_END_PLACEHOLDER (body @ 10 # rest)
           = map_option (\<lambda>(a, b). (body @ a, b))
               (find_marker BENCHMARK_SECTION_END_PLACEHOLDER (10 # rest))"
  using assms
proof (induction body)
  case Nil
  show ?case by (simp add: option.map_ident split_def)
next
  case (Cons c cs)
  let ?E = BENCHMARK_SECTION_END_PLACEHOLDER
  from Cons.prems have here: "\<not> prefix ?E (c # cs)" and later: "\<not> contains ?E cs" by simp_all
  have "\<not> prefix ?E ((c # cs) @ 10 # rest)"
  proof
    assume "prefix ?E ((c # cs) @ 10 # rest)"
    with here obtain us where us: "?E = (c # cs) @ us" "prefix us (10 # rest)"
      unfolding prefix_append by blast
    show False
    proof (cases us)
      case Nil
      with us(1) here show False by simp
    next
      case (Cons u us')
      with us(2) have "u = 10" by simp
      with Cons have "10 \<in> set ((c # cs) @ us)" by simp
      then have "10 \<in> set ?E" by (simp only: us(1) [symmetric])
      with end_marker_shape(3) show False by simp
    qed
  qed
  then have "find_marker ?E ((c # cs) @ 10 # rest)
               = map_option (\<lambda>(a, b). (c # a, b)) (find_marker ?E (cs @ 10 # rest))"
    by simp
  also have "\<dots> = map_option (\<lambda>(a, b). (c # a, b))
                     (map_option (\<lambda>(a, b). (cs @ a, b)) (find_marker ?E (10 # rest)))"
    by (simp only: Cons.IH [OF later])
  also have "\<dots> = map_option (\<lambda>(a, b). ((c # cs) @ a, b)) (find_marker ?E (10 # rest))"
    by (simp add: option.map_comp comp_def split_def)
  finally show ?case .
qed

lemma find_marker_new_block:
  assumes "\<not> contains BENCHMARK_SECTION_END_PLACEHOLDER body"
  shows "find_marker BENCHMARK_SECTION_END_PLACEHOLDER
           (([10, 10] @ body @ [10, 10]) @ BENCHMARK_SECTION_END_PLACEHOLDER @ post)
         = Some ([10, 10] @ body @ [10, 10], post)"
proof -
  let ?E = BENCHMARK_SECTION_END_PLACEHOLDER
  from end_marker_shape(1) have E_ne: "?E \<noteq> []" by auto
  have tail: "find_marker ?E (10 # 10 # ?E @ post) = Some ([10, 10], post)"
    by (simp only: find_marker_skip_newline find_marker_at_marker [OF E_ne]) simp
  have "find_marker ?E (body @ 10 # 10 # ?E @ post) = Some (body @ [10, 10], post)"
    by (simp only: find_marker_skip_free [OF assms] tail) simp
  then have "find_marker ?E (10 # 10 # body @ 10 # 10 # ?E @ post)
               = Some (10 # 10 # body @ [10, 10], post)"
    by (simp only: find_marker_skip_newline) simp
  then show ?thesis by simp
qed

subsection \<open>Stripping a document that holds the block\<close>

lemma strip_around_block:
  "strip (pre @ BENCHMARK_SECTION_START_PLACEHOLDER @ mid
            @ BENCHMARK_SECTION_END_PLACEHOLDER @ post)
     = dropWhile py_isspace pre @ BENCHMARK_SECTION_START_PLACEHOLDER @ mid
         @ BENCHMARK_SECTION_END_PLACEHOLDER @ rev (dropWhile py_isspace (rev post))"
proof -
  let ?S = BENCHMARK_SECTION_START_PLACEHOLDER and ?E = BENCHMARK_SECTION_END_PLACEHOLDER
  from start_marker_shape obtain srest where S: "?S = 60 # srest" by blast
  from end_marker_shape(2) obtain efront where E: "?E = efront @ [62]" by blast
  have front: "dropWhile py_isspace (pre @ ?S @ mid @ ?E @ post)
                 = dropWhile py_isspace pre @ ?S @ mid @ ?E @ post"
    using not_space(1) by (simp add: S dropWhile_append3)
  have turned: "rev (dropWhile py_isspace pre @ ?S @ mid @ ?E @ post)
          = rev post @ 62 # (rev efront @ rev mid @ rev ?S @ rev (dropWhile py_isspace pre))"
    by (simp add: E)
  have behind: "dropWhile py_isspace (rev (dropWhile py_isspace pre @ ?S @ mid @ ?E @ post))
                = dropWhile py_isspace (rev post)
                    @ 62 # (rev efront @ rev mid @ rev ?S @ rev (dropWhile py_isspace pre))"
    unfolding turned by (rule dropWhile_append3 [where P = py_isspace and y = 62, OF not_space(2)])
  show ?thesis
    unfolding strip_def front behind by (simp add: E)
qed

subsection \<open>Running the update twice\<close>

lemma content_unchanged:
  assumes "readme \<notin> set paths"
  shows "full_benchmark_content_md paths (fs(readme \<mapsto> t)) = full_benchmark_content_md paths fs"
proof -
  have "map (\<lambda>table_path. case (fs(readme \<mapsto> t)) table_path of None \<Rightarrow> [] | Some x \<Rightarrow> [x]) paths
          = map (\<lambda>table_path. case fs table_path of None \<Rightarrow> [] | Some x \<Rightarrow> [x]) paths"
    using assms by (intro map_cong) auto
  then show ?thesis by (simp only: full_benchmark_content_md_def)
qed

text \<open>After a write, the document holds the new block where the search finds it.\<close>

lemma written_document_is_stable:
  assumes found: "search_block t = Some (pre, mid, post)"
    and free: "\<not> contains BENCHMARK_SECTION_END_PLACEHOLDER content"
  shows "\<exists>pre' post'.
           search_block (strip (pre @ new_block_content content @ post) @ [10])
             = Some (pre', [10, 10] @ strip content @ [10, 10], post')
         \<and> strip (pre @ new_block_content content @ post) @ [10]
             = pre' @ new_block_content content @ post'"
proof -
  let ?S = BENCHMARK_SECTION_START_PLACEHOLDER and ?E = BENCHMARK_SECTION_END_PLACEHOLDER
  let ?X = "[10, 10] @ strip content @ [10, 10]"
  let ?pre' = "dropWhile py_isspace pre"
  let ?post' = "rev (dropWhile py_isspace (rev post)) @ [10]"
  have "strip (pre @ ?S @ ?X @ ?E @ post) = ?pre' @ ?S @ ?X @ ?E @ rev (dropWhile py_isspace (rev post))"
    by (rule strip_around_block)
  then have doc: "strip (pre @ new_block_content content @ post) @ [10]
                    = ?pre' @ ?S @ ?X @ ?E @ ?post'"
    by (simp add: new_block_content_def)
  have first_end: "find_marker ?E (?X @ ?E @ ?post') = Some (?X, ?post')"
    by (rule find_marker_new_block [OF strip_keeps_free [OF free]])
  have "search_block (?pre' @ ?S @ ?X @ ?E @ ?post') = Some (?pre', ?X, ?post')"
    by (rule search_block_replaced [OF found first_end suffix_dropWhile])
  with doc have "search_block (strip (pre @ new_block_content content @ post) @ [10])
                   = Some (?pre', ?X, ?post')"
    by (simp only:)
  moreover from doc have "strip (pre @ new_block_content content @ post) @ [10]
                            = ?pre' @ new_block_content content @ ?post'"
    by (simp add: new_block_content_def)
  ultimately show ?thesis by blast
qed

text \<open>
  Claim C7, amended. When the combined block does not contain the end marker and the host
  document is not one of the section files, running the update twice in a row leaves, after
  the second run, the files exactly as the first run left them, and a first run that
  succeeded is followed by a run that reports that no changes are needed. Moreover, with no
  condition on the block: when the text between the markers of the host document already is
  the recomputed block (two newlines, the stripped content, two newlines), the run writes
  nothing and reports that no changes are needed.
\<close>

theorem splice_idempotent:
  assumes "readme_filepath \<notin> set sorted_table_filepaths"
    and "\<not> contains BENCHMARK_SECTION_END_PLACEHOLDER
             (full_benchmark_content_md sorted_table_filepaths fs)"
    and "assemble_and_update_readme can_write readme_filepath sorted_table_filepaths fs
           = (r1, fs1)"
    and "assemble_and_update_readme can_write readme_filepath sorted_table_filepaths fs1
           = (r2, fs2)"
  shows "fs2 = fs1
       \<and> (r1 = SuccessfullyUpdated \<or> r1 = NoChangesNeeded \<longrightarrow> r2 = NoChangesNeeded)
       \<and> (\<forall>t pre post.
             fs readme_filepath = Some t
           \<and> search_block t
               = Some (pre, [10, 10] @ strip (full_benchmark_content_md sorted_table_filepaths fs)
                              @ [10, 10], post)
           \<longrightarrow> r1 = NoChangesNeeded \<and> fs1 = fs)"
proof -
  let ?content = "full_benchmark_content_md sorted_table_filepaths fs"
  let ?run = "assemble_and_update_readme can_write readme_filepath sorted_table_filepaths"
  have same_block: "r1 = NoChangesNeeded \<and> fs1 = fs"
    if t: "fs readme_filepath = Some t"
      and found: "search_block t = Some (pre, [10, 10] @ strip ?content @ [10, 10], post)"
    for t pre post
  proof -
    from search_block_decomp [OF found] have "t = pre @ new_block_content ?content @ post"
      by (simp add: new_block_content_def)
    with assms(3) t found show ?thesis
      by (simp add: assemble_and_update_readme_def Let_def)
  qed
  have twice: "fs2 = fs1 \<and> (r1 = SuccessfullyUpdated \<or> r1 = NoChangesNeeded \<longrightarrow> r2 = NoChangesNeeded)"
  proof (cases "fs readme_filepath")
    case None
    with assms(3) have "r1 = ReadmeNotFound" "fs1 = fs"
      by (simp_all add: assemble_and_update_readme_def Let_def)
    with assms(4) None show ?thesis
      by (simp add: assemble_and_update_readme_def Let_def)
  next
    case (Some t)
    show ?thesis
    proof (cases "search_block t")
      case None
      with assms(3) Some have "r1 = PlaceholdersNotFound" "fs1 = fs"
        by (simp_all add: assemble_and_update_readme_def Let_def)
      with assms(4) Some None show ?thesis
        by (simp add: assemble_and_update_readme_def Let_def)
    next
      case found: (Some block)
      obtain pre mid post where block: "block = (pre, mid, post)" by (cases block)
      let ?updated = "pre @ new_block_content ?content @ post"
      show ?thesis
      proof (cases "?updated = t")
        case True
        with assms(3) Some found block have first: "r1 = NoChangesNeeded" "fs1 = fs"
          by (simp_all add: assemble_and_update_readme_def Let_def)
        with assms(4) Some found block True show ?thesis
          by (simp add: assemble_and_update_readme_def Let_def)
      next
        case changed: False
        show ?thesis
        proof (cases "can_write readme_filepath")
          case False
          with assms(3) Some found block changed have first: "r1 = WriteFailed" "fs1 = fs"
            by (simp_all add: assemble_and_update_readme_def Let_def)
          with assms(4) Some found block changed False show ?thesis
            by (simp add: assemble_and_update_readme_def Let_def)
        next
          case True
          let ?t1 = "strip ?updated @ [10]"
          from assms(3) Some found block changed True
          have first: "r1 = SuccessfullyUpdated" "fs1 = fs(readme_filepath \<mapsto> ?t1)"
            by (simp_all add: assemble_and_update_readme_def Let_def)
          have content1: "full_benchmark_content_md sorted_table_filepaths fs1 = ?content"
            unfolding first(2) by (rule content_unchanged [OF assms(1)])
          from found block have "search_block t = Some (pre, mid, post)" by simp
          from written_document_is_stable [OF this assms(2)]
          obtain pre' post' where
            again: "search_block ?t1 = Some (pre', [10, 10] @ strip ?content @ [10, 10], post')"
            and same: "?t1 = pre' @ new_block_content ?content @ post'"
            by blast
          have stored: "fs1 readme_filepath = Some ?t1" by (simp add: first(2))
          from assms(4) have "r2 = NoChangesNeeded \<and> fs2 = fs1"
            unfolding assemble_and_update_readme_def content1 Let_def stored
            using again same by simp
          then show ?thesis by simp
        qed
      qed
    qed
  qed
  from twice same_block show ?thesis by blast
qed

lemmas splice_eval = assemble_and_update_readme_def full_benchmark_content_md_def
  new_block_content_def sample_readme_def sample_docs_def marker_docs_def
  BENCHMARK_SECTION_START_PLACEHOLDER_def BENCHMARK_SECTION_END_PLACEHOLDER_def
  ascii_def strip_def py_isspace_def Let_def

text \<open>
  Claim C7, as stated: running the splice twice in a row on an unchanged result set yields the
  same document. With a section whose text contains the end marker, the second run finds the
  lazy group ending inside the block the first run wrote, writes again, and the document
  grows.
\<close>

theorem end_marker_in_content_breaks_idempotence:
  "assemble_and_update_readme (\<lambda>p. True) ''README.md'' [''dg_ftle_benchmark_section.md'']
     marker_docs
   = (SuccessfullyUpdated,
      marker_docs(''README.md'' \<mapsto>
        ascii ''# Benchmarks'' @ [10] @ BENCHMARK_SECTION_START_PLACEHOLDER @ [10, 10]
        @ ascii ''### '' @ BENCHMARK_SECTION_END_PLACEHOLDER @ ascii '' FTLE'' @ [10, 10]
        @ BENCHMARK_SECTION_END_PLACEHOLDER @ [10]))
   \<and> assemble_and_update_readme (\<lambda>p. True) ''README.md'' [''dg_ftle_benchmark_section.md'']
       (marker_docs(''README.md'' \<mapsto>
          ascii ''# Benchmarks'' @ [10] @ BENCHMARK_SECTION_START_PLACEHOLDER @ [10, 10]
          @ ascii ''### '' @ BENCHMARK_SECTION_END_PLACEHOLDER @ ascii '' FTLE'' @ [10, 10]
          @ BENCHMARK_SECTION_END_PLACEHOLDER @ [10]))
     = (SuccessfullyUpdated,
        marker_docs(''README.md'' \<mapsto>
          ascii ''# Benchmarks'' @ [10] @ BENCHMARK_SECTION_START_PLACEHOLDER @ [10, 10]
          @ ascii ''### '' @ BENCHMARK_SECTION_END_PLACEHOLDER @ ascii '' FTLE'' @ [10, 10]
          @ BENCHMARK_SECTION_END_PLACEHOLDER @ ascii '' FTLE'' @ [10, 10]
          @ BENCHMARK_SECTION_END_PLACEHOLDER @ [10]))"
  by (simp add: splice_eval)

lemma sample_first_run:
  "fst (assemble_and_update_readme (\<lambda>p. True) ''README.md''
          [''dg_ftle_benchmark_section.md''] sample_docs) = SuccessfullyUpdated"
  by (simp add: splice_eval)

text \<open>
  Claim C7, amended, at a host document with an empty block and one section file: the first
  run writes, the second changes nothing.
\<close>

theorem splice_idempotent_witness:
  "''README.md'' \<notin> set [''dg_ftle_benchmark_section.md'']
   \<and> \<not> contains BENCHMARK_SECTION_END_PLACEHOLDER
         (full_benchmark_content_md [''dg_ftle_benchmark_section.md''] sample_docs)
   \<and> fst (assemble_and_update_readme (\<lambda>p. True) ''README.md''
            [''dg_ftle_benchmark_section.md''] sample_docs) = SuccessfullyUpdated
   \<and> snd (assemble_and_update_readme (\<lambda>p. True) ''README.md''
            [''dg_ftle_benchmark_section.md'']
            (snd (assemble_and_update_readme (\<lambda>p. True) ''README.md''
                    [''dg_ftle_benchmark_section.md''] sample_docs)))
       = snd (assemble_and_update_readme (\<lambda>p. True) ''README.md''
                [''dg_ftle_benchmark_section.md''] sample_docs)
   \<and> fst (assemble_and_update_readme (\<lambda>p. True) ''README.md''
            [''dg_ftle_benchmark_section.md'']
            (snd (assemble_and_update_readme (\<lambda>p. True) ''README.md''
                    [''dg_ftle_benchmark_section.md''] sample_docs)))
       = NoChangesNeeded"
proof -
  let ?run = "assemble_and_update_readme (\<lambda>p. True) ''README.md''
                [''dg_ftle_benchmark_section.md'']"
  have apart: "''README.md'' \<notin> set [''dg_ftle_benchmark_section.md'']" by simp
  have free: "\<not> contains BENCHMARK_SECTION_END_PLACEHOLDER
                  (full_benchmark_content_md [''dg_ftle_benchmark_section.md''] sample_docs)"
    by (simp add: full_benchmark_content_md_def sample_docs_def ascii_def
        BENCHMARK_SECTION_END_PLACEHOLDER_def)
  have run1: "?run sample_docs = (fst (?run sample_docs), snd (?run sample_docs))" by simp
  have run2: "?run (snd (?run sample_docs))
                = (fst (?run (snd (?run sample_docs))), snd (?run (snd (?run sample_docs))))"
    by simp
  note twice = splice_idempotent [OF apart free run1 run2]
  from twice have fixed: "snd (?run (snd (?run sample_docs))) = snd (?run sample_docs)"
    by (rule conjunct1)
  from twice sample_first_run have noop: "fst (?run (snd (?run sample_docs))) = NoChangesNeeded"
    by (simp only: simp_thms)
  show ?thesis
    by (rule conjI [OF apart conjI [OF free conjI [OF sample_first_run conjI [OF fixed noop]]]])
qed

end
